theory Spec2Isabelle
  imports Main "HOL-Library.Sublist" "HOL-Library.AList"
begin

section \<open>Strings of the JavaScript runtime\<close>

text \<open>
  The server is \<^verbatim>\<open>src/index.js\<close>, an Express application over Mongoose, Multer, bcrypt and
  jsonwebtoken. A string is a list of characters; the characters of a form field or of an
  uploaded file's name are code units in the range 0..255.

  \<open>toLowerCase\<close> maps the upper-case letters of that range to their lower-case partners and
  leaves every other character alone.
\<close>

definition upper_chars :: "char list" where
  "upper_chars = ''ABCDEFGHIJKLMNOPQRSTUVWXYZ'' @
     [CHR 0xC0, CHR 0xC1, CHR 0xC2, CHR 0xC3, CHR 0xC4, CHR 0xC5, CHR 0xC6, CHR 0xC7,
      CHR 0xC8, CHR 0xC9, CHR 0xCA, CHR 0xCB, CHR 0xCC, CHR 0xCD, CHR 0xCE, CHR 0xCF,
      CHR 0xD0, CHR 0xD1, CHR 0xD2, CHR 0xD3, CHR 0xD4, CHR 0xD5, CHR 0xD6,
      CHR 0xD8, CHR 0xD9, CHR 0xDA, CHR 0xDB, CHR 0xDC, CHR 0xDD, CHR 0xDE]"

definition lower_chars :: "char list" where
  "lower_chars = ''abcdefghijklmnopqrstuvwxyz'' @
     [CHR 0xE0, CHR 0xE1, CHR 0xE2, CHR 0xE3, CHR 0xE4, CHR 0xE5, CHR 0xE6, CHR 0xE7,
      CHR 0xE8, CHR 0xE9, CHR 0xEA, CHR 0xEB, CHR 0xEC, CHR 0xED, CHR 0xEE, CHR 0xEF,
      CHR 0xF0, CHR 0xF1, CHR 0xF2, CHR 0xF3, CHR 0xF4, CHR 0xF5, CHR 0xF6,
      CHR 0xF8, CHR 0xF9, CHR 0xFA, CHR 0xFB, CHR 0xFC, CHR 0xFD, CHR 0xFE]"

definition lower_char :: "char \<Rightarrow> char" where
  "lower_char c = (case map_of (zip upper_chars lower_chars) c of None \<Rightarrow> c | Some l \<Rightarrow> l)"

definition toLowerCase :: "string \<Rightarrow> string" where
  "toLowerCase s = map lower_char s"

text \<open>
  \<open>String.prototype.trim\<close>: white space and line terminators are removed at both ends.
\<close>

definition white_space :: "char list" where
  "white_space = [CHR 0x09, CHR 0x0A, CHR 0x0B, CHR 0x0C, CHR 0x0D, CHR '' '', CHR 0xA0]"

definition trim :: "string \<Rightarrow> string" where
  "trim s = rev (dropWhile (\<lambda>c. c \<in> set white_space)
                 (rev (dropWhile (\<lambda>c. c \<in> set white_space) s)))"

text \<open>
  \<open>RegExp.prototype.test\<close> for a pattern that is a plain word, without anchors: the word is
  searched at every position of the subject.
\<close>

fun regex_search :: "string \<Rightarrow> string \<Rightarrow> bool" where
  "regex_search pat [] = (pat = [])"
| "regex_search pat (c # cs) = (prefix pat (c # cs) \<or> regex_search pat cs)"

text \<open>
  Number to string conversion of a non-negative integer, as \<open>Date.now() + ext\<close> performs it.
\<close>

fun decimal :: "nat \<Rightarrow> string" where
  "decimal n =
     (if n < 10 then [''0123456789'' ! n]
      else decimal (n div 10) @ [''0123456789'' ! (n mod 10)])"

declare decimal.simps [simp del]

subsection \<open>\<open>path.extname\<close>\<close>

text \<open>
  Node's \<open>path.extname\<close> (POSIX flavour) scans the path from its last character to its
  first, with five variables. The variable \<open>end\<close> is called \<open>endPos\<close> here.
  \<open>extname_loop path (i + 1) st\<close> is the loop about to run its body at index \<open>i\<close>.
\<close>

record extname_vars =
  startDot :: int
  startPart :: int
  endPos :: int
  matchedSlash :: bool
  preDotState :: int

fun extname_loop :: "string \<Rightarrow> nat \<Rightarrow> extname_vars \<Rightarrow> extname_vars" where
  "extname_loop path 0 st = st"
| "extname_loop path (Suc i) st =
     (if path ! i = CHR ''/'' then
        (if \<not> matchedSlash st then st\<lparr>startPart := int i + 1\<rparr>
         else extname_loop path i st)
      else
        (let st1 = (if endPos st = - 1
                    then st\<lparr>matchedSlash := False, endPos := int i + 1\<rparr> else st);
             st2 = (if path ! i = CHR ''.'' then
                      (if startDot st1 = - 1 then st1\<lparr>startDot := int i\<rparr>
                       else if preDotState st1 \<noteq> 1 then st1\<lparr>preDotState := 1\<rparr>
                       else st1)
                    else if startDot st1 \<noteq> - 1 then st1\<lparr>preDotState := - 1\<rparr>
                    else st1)
         in extname_loop path i st2))"

declare extname_loop.simps [simp del]

definition extname :: "string \<Rightarrow> string" where
  "extname path =
     (let st = extname_loop path (length path)
                 \<lparr>startDot = - 1, startPart = 0, endPos = - 1,
                  matchedSlash = True, preDotState = 0\<rparr>
      in if startDot st = - 1 \<or> endPos st = - 1 \<or> preDotState st = 0 \<or>
            (preDotState st = 1 \<and> startDot st = endPos st - 1 \<and>
             startDot st = startPart st + 1)
         then ''''
         else take (nat (endPos st) - nat (startDot st)) (drop (nat (startDot st)) path))"

section \<open>Image intake: the Multer middleware\<close>

text \<open>
  An uploaded file as the multipart parser hands it to Multer: the form field it came in,
  the name the client declared, the content type of the part as the parser reports it
  (the parser puts the declared type in lower case), and the reading of the clock
  (\<open>Date.now()\<close>) at the moment the disk storage names the file.
\<close>

record upload =
  fieldname :: string
  originalname :: string
  mimetype :: string
  clock :: nat

text \<open>A file after storage, as the handlers find it in \<open>req.file\<close> and \<open>req.files\<close>.\<close>

record stored_file = upload +
  filename :: string

text \<open>
  \<open>allowedTypes = /jpeg|jpg|png|gif/\<close> and its \<open>test\<close> (lines 53 to 57).
\<close>

definition allowedTypes_test :: "string \<Rightarrow> bool" where
  "allowedTypes_test s =
     (regex_search ''jpeg'' s \<or> regex_search ''jpg'' s \<or>
      regex_search ''png'' s \<or> regex_search ''gif'' s)"

text \<open>
  \<open>fileFilter\<close> (lines 52 to 60): \<open>True\<close> is \<open>cb(null, true)\<close>, \<open>False\<close> is
  \<open>cb(new Error("Only images are allowed"))\<close>.
\<close>

definition fileFilter :: "upload \<Rightarrow> bool" where
  "fileFilter f =
     (let extname_ok = allowedTypes_test (toLowerCase (extname (originalname f)));
          mimetype_ok = allowedTypes_test (mimetype f)
      in extname_ok \<and> mimetype_ok)"

text \<open>The disk storage (lines 46 to 50) names the file and keeps it under \<open>uploads/\<close>.\<close>

definition storage_filename :: "upload \<Rightarrow> string" where
  "storage_filename f = decimal (clock f) @ extname (originalname f)"

definition store :: "upload \<Rightarrow> stored_file" where
  "store f = upload.extend f (stored_file.fields (storage_filename f))"

text \<open>The template \<open>`/uploads/${file.filename}`\<close> of the handlers.\<close>

definition file_url :: "stored_file \<Rightarrow> string" where
  "file_url f = ''/uploads/'' @ filename f"

datatype upload_error =
    MulterError string
  | FilterError string

text \<open>
  \<open>upload.single(field)\<close> and \<open>upload.array(field, maxCount)\<close>: Multer takes the files in the
  order of the request. A file in another field, or one more file than the field may
  carry, ends the request with \<open>LIMIT_UNEXPECTED_FILE\<close>; a file that \<open>fileFilter\<close> refuses
  ends it with the filter's error. In both cases the error goes to Express and the route
  handler is never called.
\<close>

fun multer :: "string \<Rightarrow> nat \<Rightarrow> upload list \<Rightarrow> upload_error + stored_file list" where
  "multer field left [] = Inr []"
| "multer field left (f # fs) =
     (if fieldname f \<noteq> field \<or> left = 0 then Inl (MulterError ''LIMIT_UNEXPECTED_FILE'')
      else if \<not> fileFilter f then Inl (FilterError ''Only images are allowed'')
      else (case multer field (left - 1) fs of
              Inl e \<Rightarrow> Inl e
            | Inr stored \<Rightarrow> Inr (store f # stored)))"

definition upload_single :: "string \<Rightarrow> upload list \<Rightarrow> upload_error + stored_file list" where
  "upload_single field fs = multer field 1 fs"

definition upload_array :: "string \<Rightarrow> nat \<Rightarrow> upload list \<Rightarrow> upload_error + stored_file list" where
  "upload_array field maxCount fs = multer field maxCount fs"

section \<open>Documents, collections and the libraries\<close>

text \<open>
  A path of a document, or a member of an object literal, is \<open>undefined\<close> (absent),
  \<open>null\<close>, or holds a value.
\<close>

datatype 'a field = Undefined | Null | Val 'a

text \<open>
  The request body after the body parsers: the members the client sent, each a string
  (the fields of a multipart or url-encoded form, or the string members of a JSON object).
  \<open>req_body b k\<close> is \<open>req.body.k\<close>.
\<close>

type_synonym body = "string \<rightharpoonup> string"

definition req_body :: "body \<Rightarrow> string \<Rightarrow> string field" where
  "req_body b k = (case b k of None \<Rightarrow> Undefined | Some s \<Rightarrow> Val s)"

text \<open>What \<open>JSON.parse\<close> returns. Numbers are of a type \<open>'n\<close> that is left open.\<close>

datatype 'n json =
    JNull
  | JBool bool
  | JNumber 'n
  | JString string
  | JArray "'n json list"
  | JObject "(string \<times> 'n json) list"

text \<open>
  The library functions the handlers call and whose bodies are not part of the
  repository: \<open>JSON.parse\<close> (\<open>None\<close> when it throws), \<open>Number\<close> applied to a string (\<open>None\<close>
  for \<open>NaN\<close>), \<open>bcrypt.hash\<close> (the data, the cost, and the salt it draws) and
  \<open>bcrypt.compare\<close>. \<open>omitUndefined\<close> is how the installed Mongoose treats a key whose value
  is \<open>undefined\<close> in an update: removed from the update when the flag is set (every release
  from 6 on), written as \<open>null\<close> when it is not (release 5 with its default options).
  \<open>minimize\<close> is what Mongoose makes of a value of the \<open>Mixed\<close> path when it saves a document
  and when it renders one for a response: \<open>ProductSchema\<close> leaves the schema option
  \<open>minimize\<close> at its default, so empty objects are removed, and \<open>None\<close> is a value of which
  nothing remains.
\<close>

record 'n env =
  JSON_parse :: "string \<Rightarrow> 'n json option"
  Number :: "string \<Rightarrow> 'n option"
  bcrypt_hash :: "string \<Rightarrow> nat \<Rightarrow> string \<Rightarrow> string"
  bcrypt_compare :: "string \<Rightarrow> string \<Rightarrow> bool"
  omitUndefined :: bool
  minimize :: "'n json \<Rightarrow> 'n json option"

subsection \<open>The schemas (lines 65 to 101)\<close>

record data_doc =
  dt_id :: nat
  title :: "string field"
  dt_description :: "string field"
  imageUrl :: "string field"

text \<open>
  A product of the collection, as the responses of the server render it. \<open>data\<close> is
  \<open>Undefined\<close> when \<open>minimize\<close> leaves nothing of the attributes: the document is then
  stored and listed without that member. The two timestamps that \<open>timestamps: true\<close> adds
  are not modelled.
\<close>

record 'n product_doc =
  p_id :: nat
  name :: "string field"
  description :: "string field"
  new_price :: "'n field"
  old_price :: "'n field"
  images :: "string list"
  category :: "string field"
  data :: "'n json field"
  available :: "bool field"

text \<open>
  A stored user. \<open>cartDate\<close> is an object whose keys are integers, kept as the list of its
  entries in key order. The \<open>date\<close> default is not modelled.
\<close>

record user_doc =
  u_id :: nat
  u_name :: "string field"
  email :: "string field"
  password :: string
  cartDate :: "(nat \<times> nat) list"

text \<open>
  The database: one collection per model, each in insertion order, and the source of
  fresh document identifiers.
\<close>

record 'n db =
  DataModel :: "data_doc list"
  Product :: "'n product_doc list"
  Users :: "user_doc list"
  next_id :: nat

subsection \<open>Casting and validation by the Product schema\<close>

text \<open>
  The value the handlers give to \<open>available\<close>: the string of the request, or the
  boolean \<open>true\<close>.
\<close>

datatype js_value = JS_string string | JS_boolean bool

text \<open>
  The object literal the handlers build for a product (lines 145 to 154 and 188 to 207).
  \<open>f_images\<close> and \<open>f_data\<close> are \<open>None\<close> when the literal has no such key.
\<close>

record 'n product_fields =
  f_name :: "string field"
  f_description :: "string field"
  f_new_price :: "string field"
  f_old_price :: "string field"
  f_category :: "string field"
  f_available :: js_value
  f_images :: "string list option"
  f_data :: "'n json option"

text \<open>Mongoose's casts; \<open>None\<close> is a \<open>CastError\<close>.\<close>

definition castNumber :: "'n env \<Rightarrow> string field \<Rightarrow> 'n field option" where
  "castNumber env v =
     (case v of
        Undefined \<Rightarrow> Some Undefined
      | Null \<Rightarrow> Some Null
      | Val s \<Rightarrow>
          if s = [] then Some Null
          else (case Number env s of None \<Rightarrow> None | Some n \<Rightarrow> Some (Val n)))"

definition castBoolean :: "js_value \<Rightarrow> bool option" where
  "castBoolean v =
     (case v of
        JS_boolean b \<Rightarrow> Some b
      | JS_string s \<Rightarrow>
          if s \<in> set [''true'', ''1'', ''yes''] then Some True
          else if s \<in> set [''false'', ''0'', ''no''] then Some False
          else None)"

text \<open>The \<open>trim: true\<close> setter of \<open>name\<close>.\<close>

definition trim_setter :: "string field \<Rightarrow> string field" where
  "trim_setter v = (case v of Val s \<Rightarrow> Val (trim s) | _ \<Rightarrow> v)"

text \<open>The \<open>required\<close> validators of a String path and of a Number path.\<close>

definition required_String :: "string field \<Rightarrow> bool" where
  "required_String v = (case v of Val s \<Rightarrow> s \<noteq> [] | _ \<Rightarrow> False)"

definition required_Number :: "'n field \<Rightarrow> bool" where
  "required_Number v = (case v of Val n \<Rightarrow> True | _ \<Rightarrow> False)"

text \<open>
  The attributes of a document after \<open>minimize\<close>, as they are stored at creation and as
  every response shows them.
\<close>

definition render_data :: "'n env \<Rightarrow> 'n json \<Rightarrow> 'n json field" where
  "render_data env d = (case minimize env d of None \<Rightarrow> Undefined | Some d' \<Rightarrow> Val d')"

text \<open>
  The casts of the three paths that are not strings. Both \<open>new Product(o)\<close> and an update
  by \<open>o\<close> begin with them.
\<close>

definition cast_scalars ::
  "'n env \<Rightarrow> 'n product_fields \<Rightarrow> ('n field \<times> 'n field \<times> bool) option" where
  "cast_scalars env obj =
     (case castNumber env (f_new_price obj) of
        None \<Rightarrow> None
      | Some np \<Rightarrow>
          (case castNumber env (f_old_price obj) of
             None \<Rightarrow> None
           | Some op \<Rightarrow>
               (case castBoolean (f_available obj) of
                  None \<Rightarrow> None
                | Some av \<Rightarrow> Some (np, op, av))))"

text \<open>
  \<open>new Product(o)\<close> followed by \<open>save()\<close>: the members are cast, the defaults fill what is
  undefined, and validation checks the required paths. \<open>None\<close> is the rejection of
  \<open>save()\<close> with a validation error (a failed cast is one).
\<close>

definition new_Product ::
  "'n::zero env \<Rightarrow> nat \<Rightarrow> 'n product_fields \<Rightarrow> 'n product_doc option" where
  "new_Product env i obj =
     (case cast_scalars env obj of
        None \<Rightarrow> None
      | Some (np, op, av) \<Rightarrow>
          (let doc = \<lparr>p_id = i,
                      name = trim_setter (f_name obj),
                      description = f_description obj,
                      new_price = np,
                      old_price = (if op = Undefined then Val 0 else op),
                      images = (case f_images obj of None \<Rightarrow> [] | Some imgs \<Rightarrow> imgs),
                      category = f_category obj,
                      data = render_data env
                               (case f_data obj of None \<Rightarrow> JObject [] | Some d \<Rightarrow> d),
                      available = Val av\<rparr>
           in if required_String (name doc) \<and> required_String (description doc) \<and>
                 required_Number (new_price doc) \<and> required_String (category doc) \<and>
                 list_all (\<lambda>img. img \<noteq> []) (images doc)
              then Some doc else None))"

text \<open>
  The update of one path by a member of the update object: \<open>None\<close> leaves the path as it
  is, \<open>Some v\<close> writes \<open>v\<close>.
\<close>

definition set_path :: "'n env \<Rightarrow> 'a field \<Rightarrow> 'a field option" where
  "set_path env v =
     (if v = Undefined then (if omitUndefined env then None else Some Null) else Some v)"

definition write_path :: "'a option \<Rightarrow> 'a \<Rightarrow> 'a" where
  "write_path w old = (case w of None \<Rightarrow> old | Some v \<Rightarrow> v)"

text \<open>
  The application of a cast update object to a stored product. Updates run the casts and
  the setters, not the validators, and no default. An update writes the attributes to
  the database as they are; the collection of the model holds them as every later
  response renders them, after \<open>minimize\<close>.
\<close>

definition apply_update ::
  "'n env \<Rightarrow> 'n product_fields \<Rightarrow> 'n field \<times> 'n field \<times> bool \<Rightarrow> 'n product_doc \<Rightarrow> 'n product_doc" where
  "apply_update env u c p =
     (case c of (np, op, av) \<Rightarrow>
        p\<lparr>name := write_path (set_path env (trim_setter (f_name u))) (name p),
          description := write_path (set_path env (f_description u)) (description p),
          new_price := write_path (set_path env np) (new_price p),
          old_price := write_path (set_path env op) (old_price p),
          category := write_path (set_path env (f_category u)) (category p),
          available := Val av,
          images := write_path (f_images u) (images p),
          data := write_path (map_option (render_data env) (f_data u)) (data p)\<rparr>)"

section \<open>Responses and tokens\<close>

text \<open>
  What \<open>jwt.sign(payload, secretOrPrivateKey, options)\<close> is given, and the time of issue it
  adds: the payload is \<open>{ user: { id } }\<close>.
\<close>

record token =
  payload_user_id :: nat
  secretOrPrivateKey :: string
  expiresIn :: string
  iat :: nat

definition jwt_sign :: "nat \<Rightarrow> string \<Rightarrow> string \<Rightarrow> nat \<Rightarrow> token" where
  "jwt_sign uid secret lifetime now =
     \<lparr>payload_user_id = uid, secretOrPrivateKey = secret, expiresIn = lifetime, iat = now\<rparr>"

text \<open>
  The JSON bodies the handlers send: \<open>{ success: true, ... }\<close> with its one member, or
  \<open>{ success: false, error }\<close>.
\<close>

datatype 'n json_body =
    Success_data data_doc
  | Success_data_list "data_doc list"
  | Success_product "'n product_doc"
  | Success_products "'n product_doc list"
  | Success_token token
  | Failure string

text \<open>
  A response is a status with a JSON body, or, when a middleware passed an error on, the
  answer of Express's own error handler.
\<close>

datatype 'n response =
    Response nat "'n json_body"
  | Next_error upload_error

section \<open>The generic records (lines 104 to 127)\<close>

text \<open>
  Every route is a function from the database and what the request carries to the
  response and the database afterwards. A route with an upload middleware is the
  middleware followed by the handler; the handler takes \<open>req.file\<close> or \<open>req.files\<close> as the
  middleware left them, and a request with no file reaches it with none (the empty list
  also stands for a \<open>req.files\<close> that is \<open>undefined\<close>). Requests are served one at a time and
  the database answers every query, so a handler reaches its \<open>catch\<close> only through an
  error that a library throws on the values of the request: a failed cast or validation,
  or a missing argument of bcrypt. \<open>DataSchema\<close> validates nothing, so the \<open>catch\<close> of this
  first handler is never reached.
\<close>

definition post_api_data_handler ::
  "'n db \<Rightarrow> body \<Rightarrow> stored_file option \<Rightarrow> 'n response \<times> 'n db" where
  "post_api_data_handler db b req_file =
     (let newData = \<lparr>dt_id = next_id db,
                      title = req_body b ''title'',
                      dt_description = req_body b ''description'',
                      imageUrl = (case req_file of
                                    Some f \<Rightarrow> Val (file_url f)
                                  | None \<Rightarrow> Null)\<rparr>
      in (Response 201 (Success_data newData),
          db\<lparr>DataModel := DataModel db @ [newData], next_id := next_id db + 1\<rparr>))"

definition post_api_data :: "'n db \<Rightarrow> body \<Rightarrow> upload list \<Rightarrow> 'n response \<times> 'n db" where
  "post_api_data db b uploads =
     (case upload_single ''image'' uploads of
        Inl e \<Rightarrow> (Next_error e, db)
      | Inr fs \<Rightarrow> post_api_data_handler db b (case fs of [] \<Rightarrow> None | f # _ \<Rightarrow> Some f))"

definition get_api_data :: "'n db \<Rightarrow> 'n response \<times> 'n db" where
  "get_api_data db = (Response 200 (Success_data_list (DataModel db)), db)"

section \<open>The catalog (lines 130 to 219)\<close>

text \<open>
  \<open>req.body.data\<close> where the handlers test it (\<open>if (req.body.data)\<close>): \<open>Some s\<close> when it is
  truthy. \<open>try_parse\<close> is the \<open>try\<close> around \<open>JSON.parse\<close> with its \<open>catch\<close>.
\<close>

definition body_data :: "body \<Rightarrow> string option" where
  "body_data b = (case b ''data'' of None \<Rightarrow> None | Some s \<Rightarrow> if s = [] then None else Some s)"

definition try_parse :: "'n env \<Rightarrow> string \<Rightarrow> 'n json" where
  "try_parse env s = (case JSON_parse env s of Some v \<Rightarrow> v | None \<Rightarrow> JObject [])"

definition parsedData :: "'n env \<Rightarrow> body \<Rightarrow> 'n json" where
  "parsedData env b = (case body_data b of None \<Rightarrow> JObject [] | Some s \<Rightarrow> try_parse env s)"

text \<open>\<open>req.body.available !== undefined ? req.body.available : true\<close>.\<close>

definition req_available :: "body \<Rightarrow> js_value" where
  "req_available b =
     (case req_body b ''available'' of Val s \<Rightarrow> JS_string s | _ \<Rightarrow> JS_boolean True)"

definition post_products_handler ::
  "'n::zero env \<Rightarrow> 'n db \<Rightarrow> body \<Rightarrow> stored_file list \<Rightarrow> 'n response \<times> 'n db" where
  "post_products_handler env db b req_files =
     (let imgs = map file_url req_files;
          obj = \<lparr>f_name = req_body b ''name'',
                  f_description = req_body b ''description'',
                  f_new_price = req_body b ''new_price'',
                  f_old_price = req_body b ''old_price'',
                  f_category = req_body b ''category'',
                  f_available = req_available b,
                  f_images = Some imgs,
                  f_data = Some (parsedData env b)\<rparr>
      in case new_Product env (next_id db) obj of
           None \<Rightarrow> (Response 500 (Failure ''Something went wrong''), db)
         | Some product \<Rightarrow>
             (Response 201 (Success_product product),
              db\<lparr>Product := Product db @ [product], next_id := next_id db + 1\<rparr>))"

definition post_products ::
  "'n::zero env \<Rightarrow> 'n db \<Rightarrow> body \<Rightarrow> upload list \<Rightarrow> 'n response \<times> 'n db" where
  "post_products env db b uploads =
     (case upload_array ''images'' 50 uploads of
        Inl e \<Rightarrow> (Next_error e, db)
      | Inr fs \<Rightarrow> post_products_handler env db b fs)"

definition get_products :: "'n db \<Rightarrow> 'n response \<times> 'n db" where
  "get_products db = (Response 200 (Success_products (Product db)), db)"

text \<open>
  \<open>req.params.id\<close> is \<open>None\<close> when the string of the URL is no document identifier: the
  query then throws a cast error, which the handler's \<open>catch\<close> answers.
\<close>

fun remove_first :: "nat \<Rightarrow> 'n product_doc list \<Rightarrow> 'n product_doc list" where
  "remove_first i [] = []"
| "remove_first i (p # ps) = (if p_id p = i then ps else p # remove_first i ps)"

fun replace_first :: "nat \<Rightarrow> 'n product_doc \<Rightarrow> 'n product_doc list \<Rightarrow> 'n product_doc list" where
  "replace_first i q [] = []"
| "replace_first i q (p # ps) = (if p_id p = i then q # ps else p # replace_first i q ps)"

definition findById :: "'n product_doc list \<Rightarrow> nat \<Rightarrow> 'n product_doc option" where
  "findById ps i = find (\<lambda>p. p_id p = i) ps"

definition delete_products :: "'n db \<Rightarrow> nat option \<Rightarrow> 'n response \<times> 'n db" where
  "delete_products db param_id =
     (case param_id of
        None \<Rightarrow> (Response 500 (Failure ''Something went wrong''), db)
      | Some i \<Rightarrow>
          (case findById (Product db) i of
             None \<Rightarrow> (Response 404 (Failure ''Product not found''), db)
           | Some product \<Rightarrow>
               (Response 200 (Success_product product),
                db\<lparr>Product := remove_first i (Product db)\<rparr>)))"

text \<open>The object \<open>updatedData\<close> of the update handler (lines 188 to 207).\<close>

definition updatedData :: "'n env \<Rightarrow> body \<Rightarrow> stored_file list \<Rightarrow> 'n product_fields" where
  "updatedData env b req_files =
     \<lparr>f_name = req_body b ''name'',
      f_description = req_body b ''description'',
      f_new_price = req_body b ''new_price'',
      f_old_price = req_body b ''old_price'',
      f_category = req_body b ''category'',
      f_available = req_available b,
      f_images = (if length req_files > 0
                  then Some (map file_url req_files) else None),
      f_data = (case body_data b of None \<Rightarrow> None | Some s \<Rightarrow> Some (try_parse env s))\<rparr>"

text \<open>
  \<open>Product.findByIdAndUpdate(id, updatedData, { new: true })\<close>: the update is cast before
  the collection is touched; \<open>Inl ()\<close> is the cast error, \<open>Inr None\<close> the \<open>null\<close> of a
  missing document, \<open>Inr (Some product)\<close> the document after the update.
\<close>

definition findByIdAndUpdate ::
  "'n env \<Rightarrow> 'n product_doc list \<Rightarrow> nat \<Rightarrow> 'n product_fields \<Rightarrow>
     unit + ('n product_doc option \<times> 'n product_doc list)" where
  "findByIdAndUpdate env ps i u =
     (case cast_scalars env u of
        None \<Rightarrow> Inl ()
      | Some c \<Rightarrow>
          (case findById ps i of
             None \<Rightarrow> Inr (None, ps)
           | Some p \<Rightarrow>
               (let product = apply_update env u c p
                in Inr (Some product, replace_first i product ps))))"

definition put_products_handler ::
  "'n env \<Rightarrow> 'n db \<Rightarrow> nat option \<Rightarrow> body \<Rightarrow> stored_file list \<Rightarrow> 'n response \<times> 'n db" where
  "put_products_handler env db param_id b req_files =
     (case param_id of
        None \<Rightarrow> (Response 500 (Failure ''Something went wrong''), db)
      | Some i \<Rightarrow>
          (case findByIdAndUpdate env (Product db) i (updatedData env b req_files) of
             Inl _ \<Rightarrow> (Response 500 (Failure ''Something went wrong''), db)
           | Inr (None, ps) \<Rightarrow> (Response 404 (Failure ''Product not found''), db)
           | Inr (Some product, ps) \<Rightarrow>
               (Response 200 (Success_product product), db\<lparr>Product := ps\<rparr>)))"

definition put_products ::
  "'n env \<Rightarrow> 'n db \<Rightarrow> nat option \<Rightarrow> body \<Rightarrow> upload list \<Rightarrow> 'n response \<times> 'n db" where
  "put_products env db param_id b uploads =
     (case upload_array ''images'' 50 uploads of
        Inl e \<Rightarrow> (Next_error e, db)
      | Inr fs \<Rightarrow> put_products_handler env db param_id b fs)"

section \<open>Accounts (lines 222 to 268)\<close>

text \<open>The loop \<open>for (let i = 0; i < 300; i++) cart[i] = 0\<close>, started at \<open>i\<close> with \<open>cart\<close>.\<close>

function cart_loop :: "nat \<Rightarrow> (nat \<times> nat) list \<Rightarrow> (nat \<times> nat) list" where
  "cart_loop i cart = (if i < 300 then cart_loop (i + 1) (AList.update i 0 cart) else cart)"
  by pat_completeness auto
termination
  by (relation "measure (\<lambda>(i, cart). 300 - i)") auto

declare cart_loop.simps [simp del]

text \<open>
  \<open>Users.findOne({ email })\<close>: the first user with that email. An \<open>undefined\<close> in the
  filter reaches the database as \<open>null\<close>, and the filter \<open>{ email: null }\<close> matches the users
  whose email is \<open>null\<close> or missing.
\<close>

definition null_or_missing :: "'a field \<Rightarrow> bool" where
  "null_or_missing v = (v = Undefined \<or> v = Null)"

definition findOne_email :: "user_doc list \<Rightarrow> string field \<Rightarrow> user_doc option" where
  "findOne_email us e =
     (if e = Undefined \<or> e = Null then find (\<lambda>u. null_or_missing (email u)) us
      else find (\<lambda>u. email u = e) us)"

text \<open>
  \<open>user.save()\<close> rejects with a duplicate key error when the unique index on \<open>email\<close>
  already holds the email of the new document; a missing email is indexed as \<open>null\<close>.
\<close>

definition duplicate_key :: "user_doc list \<Rightarrow> user_doc \<Rightarrow> bool" where
  "duplicate_key us u =
     list_ex (\<lambda>u'. if null_or_missing (email u) then null_or_missing (email u')
                    else email u' = email u) us"

text \<open>
  The handler of \<open>POST /signup\<close>. \<open>salt\<close> is the salt \<open>bcrypt.hash\<close> draws and \<open>now\<close> the clock
  when the token is signed. \<open>bcrypt.hash\<close> rejects when it is given no string.
\<close>

definition signup ::
  "'n env \<Rightarrow> 'n db \<Rightarrow> body \<Rightarrow> string \<Rightarrow> nat \<Rightarrow> 'n response \<times> 'n db" where
  "signup env db b salt now =
     (let username = req_body b ''username'';
          email_of_body = req_body b ''email'';
          password_of_body = req_body b ''password''
      in case findOne_email (Users db) email_of_body of
           Some existingUser \<Rightarrow> (Response 400 (Failure ''Email already exists''), db)
         | None \<Rightarrow>
             (case password_of_body of
                Val pw \<Rightarrow>
                  (let hashedPassword = bcrypt_hash env pw 10 salt;
                       cart = cart_loop 0 [];
                       user = \<lparr>u_id = next_id db, u_name = username, email = email_of_body,
                               password = hashedPassword, cartDate = cart\<rparr>
                   in if duplicate_key (Users db) user
                      then (Response 500 (Failure ''Server error''), db)
                      else (Response 200
                              (Success_token (jwt_sign (u_id user) ''secret_ecom'' ''1h'' now)),
                            db\<lparr>Users := Users db @ [user], next_id := next_id db + 1\<rparr>))
              | _ \<Rightarrow> (Response 500 (Failure ''Server error''), db)))"

text \<open>The handler of \<open>POST /login\<close>. \<open>bcrypt.compare\<close> rejects when it is given no string.\<close>

definition login :: "'n env \<Rightarrow> 'n db \<Rightarrow> body \<Rightarrow> nat \<Rightarrow> 'n response \<times> 'n db" where
  "login env db b now =
     (let email_of_body = req_body b ''email'';
          password_of_body = req_body b ''password''
      in case findOne_email (Users db) email_of_body of
           None \<Rightarrow> (Response 400 (Failure ''Invalid Email''), db)
         | Some user \<Rightarrow>
             (case password_of_body of
                Val pw \<Rightarrow>
                  (let isMatch = bcrypt_compare env pw (password user)
                   in if \<not> isMatch then (Response 400 (Failure ''Invalid Password''), db)
                      else (Response 200
                              (Success_token (jwt_sign (u_id user) ''secret_ecom'' ''1h'' now)),
                            db))
              | _ \<Rightarrow> (Response 500 (Failure ''Server error''), db)))"

section \<open>The server as a whole\<close>

text \<open>
  A request to one of the eight routes, with what it carries, and the server taking the
  requests one after the other.
\<close>

datatype request =
    Post_api_data body "upload list"
  | Get_api_data
  | Post_products body "upload list"
  | Get_products
  | Delete_products "nat option"
  | Put_products "nat option" body "upload list"
  | Signup body string nat
  | Login body nat

fun serve :: "'n::zero env \<Rightarrow> 'n db \<Rightarrow> request \<Rightarrow> 'n response \<times> 'n db" where
  "serve env db (Post_api_data b uploads) = post_api_data db b uploads"
| "serve env db Get_api_data = get_api_data db"
| "serve env db (Post_products b uploads) = post_products env db b uploads"
| "serve env db Get_products = get_products db"
| "serve env db (Delete_products param_id) = delete_products db param_id"
| "serve env db (Put_products param_id b uploads) = put_products env db param_id b uploads"
| "serve env db (Signup b salt now) = signup env db b salt now"
| "serve env db (Login b now) = login env db b now"

fun run :: "'n::zero env \<Rightarrow> 'n db \<Rightarrow> request list \<Rightarrow> 'n db" where
  "run env db [] = db"
| "run env db (r # rs) = run env (snd (serve env db r)) rs"

section \<open>Conditions on a request\<close>

text \<open>
  The scalar fields of a body pass the Product schema at creation: the required strings
  are there and not empty, the prices are numbers, and \<open>available\<close>, when sent, is one of
  the words Mongoose reads as a boolean.
\<close>

definition scalars_valid :: "'n env \<Rightarrow> body \<Rightarrow> bool" where
  "scalars_valid env b =
     (required_String (trim_setter (req_body b ''name'')) \<and>
      required_String (req_body b ''description'') \<and>
      (case castNumber env (req_body b ''new_price'') of
         Some np \<Rightarrow> required_Number np | None \<Rightarrow> False) \<and>
      castNumber env (req_body b ''old_price'') \<noteq> None \<and>
      required_String (req_body b ''category'') \<and>
      castBoolean (req_available b) \<noteq> None)"

text \<open>The scalar fields of a body cast, as an update needs them to.\<close>

definition scalars_cast :: "'n env \<Rightarrow> body \<Rightarrow> bool" where
  "scalars_cast env b =
     (castNumber env (req_body b ''new_price'') \<noteq> None \<and>
      castNumber env (req_body b ''old_price'') \<noteq> None \<and>
      castBoolean (req_available b) \<noteq> None)"

text \<open>The uploads Multer lets through for a field that takes up to \<open>maxCount\<close> files.\<close>

definition uploads_accepted :: "string \<Rightarrow> nat \<Rightarrow> upload list \<Rightarrow> bool" where
  "uploads_accepted field maxCount uploads =
     (length uploads \<le> maxCount \<and>
      list_all (\<lambda>f. fieldname f = field \<and> fileFilter f) uploads)"

text \<open>The path under which a handler lists an upload once it is stored.\<close>

definition upload_path :: "upload \<Rightarrow> string" where
  "upload_path f = ''/uploads/'' @ storage_filename f"

subsection \<open>The allow-list as the specification words it\<close>

text \<open>
  The specification validates the declared extension and the declared content type
  against the allow-list jpeg, jpg, png, gif: the extension is one of the four after its
  dot, whatever its case, and the content type is \<open>image/\<close> followed by one of the four.
\<close>

definition allow_list :: "string list" where
  "allow_list = [''jpeg'', ''jpg'', ''png'', ''gif'']"

definition spec_file_allowed :: "upload \<Rightarrow> bool" where
  "spec_file_allowed f =
     (toLowerCase (extname (originalname f)) \<in> set (map (\<lambda>t. ''.'' @ t) allow_list) \<and>
      mimetype f \<in> set (map (\<lambda>t. ''image/'' @ t) allow_list))"

text \<open>A path that an update has cleared: it holds no value any more.\<close>

definition cleared :: "'a field \<Rightarrow> bool" where
  "cleared v = (v = Undefined \<or> v = Null)"

section \<open>Example values\<close>

text \<open>
  A database with nothing in it, and stand-ins for the libraries on which the handlers
  can be run: a parser that knows three texts, a number reader that knows three, a hash
  that is the salt followed by the reversed password, and the removal of empty objects.
\<close>

definition empty_db :: "int db" where
  "empty_db = \<lparr>DataModel = [], Product = [], Users = [], next_id = 0\<rparr>"

definition example_parse :: "string \<Rightarrow> int json option" where
  \<open>example_parse s =
     (if s = ''{"color":"red","size":42}''
      then Some (JObject [(''color'', JString ''red''), (''size'', JNumber 42)])
      else if s = ''{"a":{}}'' then Some (JObject [(''a'', JObject [])])
      else if s = ''{}'' then Some (JObject [])
      else None)\<close>

definition example_Number :: "string \<Rightarrow> int option" where
  "example_Number s = map_of [(''0'', 0), (''10'', 10), (''25'', 25)] s"

definition example_hash :: "string \<Rightarrow> nat \<Rightarrow> string \<Rightarrow> string" where
  "example_hash pw cost salt = salt @ rev pw"

definition example_compare :: "string \<Rightarrow> string \<Rightarrow> bool" where
  "example_compare pw h = (length pw \<le> length h \<and> drop (length h - length pw) h = rev pw)"

text \<open>
  Mongoose's \<open>minimize\<close>: a member whose value is left with nothing is removed from its
  object, and an object left without members is removed in turn, unless it is an element
  of an array.
\<close>

fun strip_empty :: "'n json \<Rightarrow> 'n json option"
  and strip_members :: "(string \<times> 'n json) list \<Rightarrow> (string \<times> 'n json) list"
  and strip_elements :: "'n json list \<Rightarrow> 'n json list" where
  "strip_empty (JObject kvs) =
     (case strip_members kvs of [] \<Rightarrow> None | m # ms \<Rightarrow> Some (JObject (m # ms)))"
| "strip_empty (JArray xs) = Some (JArray (strip_elements xs))"
| "strip_empty JNull = Some JNull"
| "strip_empty (JBool b) = Some (JBool b)"
| "strip_empty (JNumber n) = Some (JNumber n)"
| "strip_empty (JString s) = Some (JString s)"
| "strip_members [] = []"
| "strip_members ((k, v) # kvs) =
     (case strip_empty v of
        None \<Rightarrow> strip_members kvs
      | Some v' \<Rightarrow> (k, v') # strip_members kvs)"
| "strip_elements [] = []"
| "strip_elements (x # xs) =
     (case x of
        JObject kvs \<Rightarrow> JObject (strip_members kvs)
      | JArray ys \<Rightarrow> JArray (strip_elements ys)
      | _ \<Rightarrow> x) # strip_elements xs"

definition example_env :: "bool \<Rightarrow> int env" where
  "example_env omit =
     \<lparr>JSON_parse = example_parse, Number = example_Number, bcrypt_hash = example_hash,
      bcrypt_compare = example_compare, omitUndefined = omit, minimize = strip_empty\<rparr>"

definition example_upload :: "string \<Rightarrow> string \<Rightarrow> nat \<Rightarrow> upload" where
  "example_upload n t c = \<lparr>fieldname = ''images'', originalname = n, mimetype = t, clock = c\<rparr>"

definition example_body :: body where
  \<open>example_body =
     [''name'' \<mapsto> ''Mug'', ''description'' \<mapsto> ''A red mug'', ''new_price'' \<mapsto> ''10'',
      ''old_price'' \<mapsto> ''25'', ''category'' \<mapsto> ''kitchen'', ''available'' \<mapsto> ''false'',
      ''data'' \<mapsto> ''{"color":"red","size":42}'']\<close>

definition example_product :: "int product_doc" where
  "example_product =
     \<lparr>p_id = 0, name = Val ''Mug'', description = Val ''A red mug'', new_price = Val 10,
      old_price = Val 25, images = [''/uploads/17.png''], category = Val ''kitchen'',
      data = Val (JObject [(''color'', JString ''red''), (''size'', JNumber 42)]),
      available = Val False\<rparr>"

definition example_db :: "int db" where
  "example_db = \<lparr>DataModel = [], Product = [example_product], Users = [], next_id = 1\<rparr>"

definition example_account :: body where
  "example_account =
     [''username'' \<mapsto> ''ann'', ''email'' \<mapsto> ''ann@example.org'', ''password'' \<mapsto> ''pw'']"

text \<open>The example database after the example account has registered.\<close>

definition registered_db :: "int db" where
  "registered_db = snd (signup (example_env True) empty_db example_account ''salt'' 5)"

definition example_user :: user_doc where
  "example_user =
     \<lparr>u_id = 0, u_name = Val ''ann'', email = Val ''ann@example.org'', password = ''saltwp'',
      cartDate = cart_loop 0 []\<rparr>"

definition other_account :: body where
  "other_account =
     [''username'' \<mapsto> ''bob'', ''email'' \<mapsto> ''bob@example.org'', ''password'' \<mapsto> ''secret'']"

definition example_requests :: "request list" where
  "example_requests = [Signup other_account ''s'' 6, Login other_account 7, Get_products]"

definition example_files :: "upload list" where
  "example_files =
     [example_upload ''a.PNG'' ''image/png'' 17, example_upload ''b.jpg'' ''image/jpeg'' 18,
      example_upload ''c.gif'' ''image/gif'' 19]"

definition broken_body :: body where
  "broken_body = example_body(''data'' \<mapsto> ''{color:'')"

definition rename_body :: body where
  "rename_body = [''name'' \<mapsto> '' Cup '']"

definition renamed_product :: "bool \<Rightarrow> int product_doc" where
  "renamed_product omit =
     (if omit then example_product\<lparr>name := Val ''Cup'', available := Val True\<rparr>
      else example_product\<lparr>name := Val ''Cup'', description := Null, new_price := Null,
             old_price := Null, category := Null, available := Val True\<rparr>)"

definition unlisted_upload :: upload where
  "unlisted_upload = example_upload ''payload.gifsh'' ''application/x-gifsh'' 17"


definition single_upload :: upload where
  "single_upload =
     \<lparr>fieldname = ''image'', originalname = ''Cat.jpeg'', mimetype = ''image/jpeg'', clock = 21\<rparr>"

definition nested_body :: body where
  \<open>nested_body = example_body(''data'' \<mapsto> ''{"a":{}}'')\<close>

definition nested_product :: "int product_doc" where
  "nested_product =
     \<lparr>p_id = 0, name = Val ''Mug'', description = Val ''A red mug'', new_price = Val 10,
      old_price = Val 25, images = [], category = Val ''kitchen'', data = Undefined,
      available = Val False\<rparr>"

section \<open>The generic record service\<close>

lemma upload_single_one:
  "fieldname f = field \<Longrightarrow> fileFilter f \<Longrightarrow> upload_single field [f] = Inr [store f]"
  by (simp add: upload_single_def)

lemma file_url_of_store: "file_url (store f) = ''/uploads/'' @ storage_filename f"
  by (simp add: file_url_def store_def upload.extend_def stored_file.fields_def)

text \<open>
  Claim C10. Creating a generic record validates nothing. With no file attached the
  request is answered with status 201 whatever the body holds, the record is stored with
  the title and the description of the request, absent when the request has none, and
  its \<open>imageUrl\<close> is \<open>null\<close>. With a file that the intake accepts the text fields are
  treated the same, and \<open>imageUrl\<close> is the path of the file.
\<close>

theorem create_record_no_validation:
  "post_api_data db b [] =
     (Response 201
        (Success_data \<lparr>dt_id = next_id db, title = req_body b ''title'',
                       dt_description = req_body b ''description'', imageUrl = Null\<rparr>),
      db\<lparr>DataModel := DataModel db @
             [\<lparr>dt_id = next_id db, title = req_body b ''title'',
               dt_description = req_body b ''description'', imageUrl = Null\<rparr>],
         next_id := next_id db + 1\<rparr>) \<and>
   (fieldname f = ''image'' \<and> fileFilter f \<longrightarrow>
      post_api_data db b [f] =
        (Response 201
           (Success_data \<lparr>dt_id = next_id db, title = req_body b ''title'',
                          dt_description = req_body b ''description'',
                          imageUrl = Val (''/uploads/'' @ storage_filename f)\<rparr>),
         db\<lparr>DataModel := DataModel db @
                [\<lparr>dt_id = next_id db, title = req_body b ''title'',
                  dt_description = req_body b ''description'',
                  imageUrl = Val (''/uploads/'' @ storage_filename f)\<rparr>],
            next_id := next_id db + 1\<rparr>)) \<and>
   (b ''title'' = None \<longrightarrow> req_body b ''title'' = Undefined) \<and>
   (b ''description'' = None \<longrightarrow> req_body b ''description'' = Undefined)"
proof (intro conjI impI)
  show "post_api_data db b [] =
     (Response 201
        (Success_data \<lparr>dt_id = next_id db, title = req_body b ''title'',
                       dt_description = req_body b ''description'', imageUrl = Null\<rparr>),
      db\<lparr>DataModel := DataModel db @
             [\<lparr>dt_id = next_id db, title = req_body b ''title'',
               dt_description = req_body b ''description'', imageUrl = Null\<rparr>],
         next_id := next_id db + 1\<rparr>)"
    by (simp add: post_api_data_def post_api_data_handler_def upload_single_def Let_def)
next
  assume "fieldname f = ''image'' \<and> fileFilter f"
  then have "upload_single ''image'' [f] = Inr [store f]"
    by (simp add: upload_single_one)
  then show "post_api_data db b [f] =
        (Response 201
           (Success_data \<lparr>dt_id = next_id db, title = req_body b ''title'',
                          dt_description = req_body b ''description'',
                          imageUrl = Val (''/uploads/'' @ storage_filename f)\<rparr>),
         db\<lparr>DataModel := DataModel db @
                [\<lparr>dt_id = next_id db, title = req_body b ''title'',
                  dt_description = req_body b ''description'',
                  imageUrl = Val (''/uploads/'' @ storage_filename f)\<rparr>],
            next_id := next_id db + 1\<rparr>)"
    by (simp add: post_api_data_def post_api_data_handler_def file_url_of_store Let_def)
next
  assume "b ''title'' = None"
  then show "req_body b ''title'' = Undefined" by (simp add: req_body_def)
next
  assume "b ''description'' = None"
  then show "req_body b ''description'' = Undefined" by (simp add: req_body_def)
qed

theorem create_record_no_validation_witness:
  "post_api_data empty_db Map.empty [] =
     (Response 201
        (Success_data \<lparr>dt_id = 0, title = Undefined, dt_description = Undefined,
                       imageUrl = Null\<rparr>),
      \<lparr>DataModel = [\<lparr>dt_id = 0, title = Undefined, dt_description = Undefined,
                      imageUrl = Null\<rparr>],
       Product = [], Users = [], next_id = 1\<rparr>) \<and>
   fst (post_api_data empty_db Map.empty [single_upload]) =
     Response 201
       (Success_data \<lparr>dt_id = 0, title = Undefined, dt_description = Undefined,
                      imageUrl = Val ''/uploads/21.jpeg''\<rparr>)"
proof -
  have ok: "fieldname single_upload = ''image'' \<and> fileFilter single_upload"
    by code_simp
  have path: "''/uploads/'' @ storage_filename single_upload = ''/uploads/21.jpeg''"
    by code_simp
  from create_record_no_validation [of empty_db Map.empty single_upload] ok
  have "post_api_data empty_db Map.empty [] =
     (Response 201
        (Success_data \<lparr>dt_id = next_id empty_db, title = req_body Map.empty ''title'',
                       dt_description = req_body Map.empty ''description'', imageUrl = Null\<rparr>),
      empty_db\<lparr>DataModel := DataModel empty_db @
             [\<lparr>dt_id = next_id empty_db, title = req_body Map.empty ''title'',
               dt_description = req_body Map.empty ''description'', imageUrl = Null\<rparr>],
         next_id := next_id empty_db + 1\<rparr>)"
    and "fst (post_api_data empty_db Map.empty [single_upload]) =
        Response 201
           (Success_data \<lparr>dt_id = next_id empty_db, title = req_body Map.empty ''title'',
                          dt_description = req_body Map.empty ''description'',
                          imageUrl = Val (''/uploads/'' @ storage_filename single_upload)\<rparr>)"
    by simp_all
  then show ?thesis
    by (simp only: path) (simp add: empty_db_def req_body_def)
qed

section \<open>Accounts\<close>

subsection \<open>The cart loop\<close>

lemma update_fresh_key:
  "k \<notin> fst ` set ps \<Longrightarrow> AList.update k v ps = ps @ [(k, v)]"
  by (induction ps) auto

lemma cart_loop_from:
  "i \<le> 300 \<Longrightarrow> cart_loop i (map (\<lambda>k. (k, 0)) [0..<i]) = map (\<lambda>k. (k, 0)) [0..<300]"
proof (induction "300 - i" arbitrary: i)
  case 0
  then have "i = 300" by simp
  then show ?case by (simp add: cart_loop.simps)
next
  case (Suc d)
  then have lt: "i < 300" and d: "d = 300 - (i + 1)" and le: "i + 1 \<le> 300" by simp_all
  have fresh: "i \<notin> fst ` set (map (\<lambda>k. (k, 0::nat)) [0..<i])" by auto
  have step: "AList.update i 0 (map (\<lambda>k. (k, 0::nat)) [0..<i]) = map (\<lambda>k. (k, 0)) [0..<i + 1]"
    using update_fresh_key [OF fresh, of 0] by simp
  have "cart_loop i (map (\<lambda>k. (k, 0)) [0..<i]) =
        cart_loop (i + 1) (AList.update i 0 (map (\<lambda>k. (k, 0)) [0..<i]))"
    using lt by (subst cart_loop.simps) simp
  also have "\<dots> = cart_loop (i + 1) (map (\<lambda>k. (k, 0)) [0..<i + 1])"
    by (simp only: step)
  also have "\<dots> = map (\<lambda>k. (k, 0)) [0..<300]"
    using Suc.hyps(1) [OF d le] .
  finally show ?case .
qed

lemma cart_loop_result: "cart_loop 0 [] = map (\<lambda>k. (k, 0)) [0..<300]"
  using cart_loop_from [of 0] by simp

lemma map_of_zero_slots:
  "map_of (map (\<lambda>k. (k, 0::nat)) [0..<n]) i = (if i < n then Some 0 else None)"
  by (induction n) (auto simp: map_add_def split: option.splits)

subsection \<open>Looking a user up\<close>

lemma findOne_email_None:
  "findOne_email us (Val e) = None \<longleftrightarrow> (\<forall>u \<in> set us. email u \<noteq> Val e)"
  by (auto simp: findOne_email_def find_None_iff)

lemma findOne_email_Some:
  "findOne_email us (Val e) = Some u \<Longrightarrow> u \<in> set us \<and> email u = Val e"
  by (auto simp: findOne_email_def find_Some_iff)

lemma findOne_email_exists:
  "\<exists>u \<in> set us. email u = Val e \<Longrightarrow> \<exists>u. findOne_email us (Val e) = Some u"
  using findOne_email_None [of us e] by (cases "findOne_email us (Val e)") auto

lemma no_duplicate_key:
  "findOne_email us (Val e) = None \<Longrightarrow> email u = Val e \<Longrightarrow> \<not> duplicate_key us u"
  by (auto simp: findOne_email_None duplicate_key_def null_or_missing_def list_ex_iff)

lemma findOne_email_append:
  "findOne_email us (Val e) = Some u \<Longrightarrow> findOne_email (us @ vs) (Val e) = Some u"
  by (induction us) (auto simp: findOne_email_def)

lemma findOne_email_new:
  "findOne_email us (Val e) = None \<Longrightarrow> email u = Val e \<Longrightarrow>
   findOne_email (us @ [u]) (Val e) = Some u"
  by (induction us) (auto simp: findOne_email_def split: if_splits)

subsection \<open>What the two handlers do\<close>

lemma signup_existing:
  "findOne_email (Users db) (req_body b ''email'') = Some u \<Longrightarrow>
   signup env db b salt now = (Response 400 (Failure ''Email already exists''), db)"
  by (simp add: signup_def)

lemma signup_fresh:
  assumes "b ''email'' = Some e" and "findOne_email (Users db) (Val e) = None"
    and "b ''password'' = Some pw"
  shows "signup env db b salt now =
     (Response 200 (Success_token (jwt_sign (next_id db) ''secret_ecom'' ''1h'' now)),
      db\<lparr>Users := Users db @
             [\<lparr>u_id = next_id db, u_name = req_body b ''username'', email = Val e,
               password = bcrypt_hash env pw 10 salt, cartDate = cart_loop 0 []\<rparr>],
         next_id := next_id db + 1\<rparr>)"
proof -
  have "\<not> duplicate_key (Users db)
          \<lparr>u_id = next_id db, u_name = req_body b ''username'', email = Val e,
           password = bcrypt_hash env pw 10 salt, cartDate = cart_loop 0 []\<rparr>"
    using assms(2) by (rule no_duplicate_key) simp
  then show ?thesis
    using assms by (simp add: signup_def req_body_def Let_def)
qed

lemma login_unknown:
  "findOne_email (Users db) (req_body b ''email'') = None \<Longrightarrow>
   login env db b now = (Response 400 (Failure ''Invalid Email''), db)"
  by (simp add: login_def)

lemma login_known:
  "findOne_email (Users db) (req_body b ''email'') = Some u \<Longrightarrow> b ''password'' = Some pw \<Longrightarrow>
   login env db b now =
     (if bcrypt_compare env pw (password u)
      then Response 200 (Success_token (jwt_sign (u_id u) ''secret_ecom'' ''1h'' now))
      else Response 400 (Failure ''Invalid Password''), db)"
  by (simp add: login_def req_body_def Let_def)

text \<open>
  Claim C3. Registering with an email that a stored user already has is answered with
  status 400 and the error "Email already exists", and the users are as they were.
  Registering with an email that no stored user has, and a password, is answered with
  \<open>{success: true, token}\<close> and adds exactly one user.
\<close>

theorem register_duplicate_or_fresh:
  "(b ''email'' = Some e \<and> (\<exists>u \<in> set (Users db). email u = Val e) \<longrightarrow>
      signup env db b salt now = (Response 400 (Failure ''Email already exists''), db)) \<and>
   (b ''email'' = Some e \<and> (\<forall>u \<in> set (Users db). email u \<noteq> Val e) \<and>
    b ''password'' = Some pw \<longrightarrow>
      fst (signup env db b salt now) =
        Response 200 (Success_token (jwt_sign (next_id db) ''secret_ecom'' ''1h'' now)) \<and>
      length (Users (snd (signup env db b salt now))) = length (Users db) + 1 \<and>
      (\<exists>u. Users (snd (signup env db b salt now)) = Users db @ [u] \<and> email u = Val e))"
proof (intro conjI impI)
  assume a: "b ''email'' = Some e \<and> (\<exists>u \<in> set (Users db). email u = Val e)"
  then obtain u where "findOne_email (Users db) (Val e) = Some u"
    using findOne_email_exists [of "Users db" e] by blast
  with a show "signup env db b salt now = (Response 400 (Failure ''Email already exists''), db)"
    using signup_existing [of db b u] by (simp add: req_body_def)
next
  assume a: "b ''email'' = Some e \<and> (\<forall>u \<in> set (Users db). email u \<noteq> Val e) \<and>
    b ''password'' = Some pw"
  then have none: "findOne_email (Users db) (Val e) = None"
    by (simp add: findOne_email_None)
  note eq = signup_fresh [of b e db pw env salt now, OF _ none]
  from a eq show "fst (signup env db b salt now) =
        Response 200 (Success_token (jwt_sign (next_id db) ''secret_ecom'' ''1h'' now))"
    by simp
  from a eq show "length (Users (snd (signup env db b salt now))) = length (Users db) + 1"
    by simp
  from a eq show "\<exists>u. Users (snd (signup env db b salt now)) = Users db @ [u] \<and> email u = Val e"
    by simp
qed

theorem register_duplicate_or_fresh_witness:
  "fst (signup (example_env True) empty_db example_account ''salt'' 5) =
     Response 200 (Success_token \<lparr>payload_user_id = 0, secretOrPrivateKey = ''secret_ecom'',
                                   expiresIn = ''1h'', iat = 5\<rparr>) \<and>
   length (Users registered_db) = 1 \<and>
   signup (example_env True) registered_db example_account ''pepper'' 6 =
     (Response 400 (Failure ''Email already exists''), registered_db)"
proof -
  have e: "example_account ''email'' = Some ''ann@example.org''"
    and p: "example_account ''password'' = Some ''pw''"
    by (simp_all add: example_account_def)
  have fresh: "\<forall>u \<in> set (Users empty_db). email u \<noteq> Val ''ann@example.org''"
    by (simp add: empty_db_def)
  from register_duplicate_or_fresh
         [of example_account "''ann@example.org''" empty_db "example_env True" "''salt''" 5 "''pw''"]
       e p fresh
  have first: "fst (signup (example_env True) empty_db example_account ''salt'' 5) =
       Response 200 (Success_token (jwt_sign (next_id empty_db) ''secret_ecom'' ''1h'' 5))"
    and size: "length (Users registered_db) = length (Users empty_db) + 1"
    and ex: "\<exists>u. Users registered_db = Users empty_db @ [u] \<and> email u = Val ''ann@example.org''"
    unfolding registered_db_def by blast+
  from ex have known: "\<exists>u \<in> set (Users registered_db). email u = Val ''ann@example.org''"
    by auto
  from register_duplicate_or_fresh
         [of example_account "''ann@example.org''" registered_db "example_env True" "''pepper''" 6]
       e known
  have second: "signup (example_env True) registered_db example_account ''pepper'' 6 =
       (Response 400 (Failure ''Email already exists''), registered_db)"
    by blast
  from first size second show ?thesis
    by (simp add: jwt_sign_def empty_db_def)
qed

lemma registered_db_eq:
  "registered_db = \<lparr>DataModel = [], Product = [], Users = [example_user], next_id = 1\<rparr>"
proof -
  have "findOne_email (Users empty_db) (Val ''ann@example.org'') = None"
    by (simp add: empty_db_def findOne_email_def)
  from signup_fresh [of example_account "''ann@example.org''" empty_db "''pw''"
                        "example_env True" "''salt''" 5, OF _ this]
  show ?thesis
    by (simp add: registered_db_def example_account_def empty_db_def example_user_def
                  req_body_def example_env_def example_hash_def)
qed

lemma findOne_registered:
  "findOne_email (Users registered_db) (Val ''ann@example.org'') = Some example_user"
  by (simp add: registered_db_eq findOne_email_def example_user_def)

text \<open>
  Claim C4. Logging in with an email that no stored user has is answered with status 400
  and the error "Invalid Email", and no token. With the email of a stored user and a
  password that \<open>bcrypt.compare\<close> does not match against the stored hash, the answer is
  status 400 and "Invalid Password"; when the comparison matches, it is
  \<open>{success: true, token}\<close>.
\<close>

theorem login_outcomes:
  "(b ''email'' = Some e \<and> (\<forall>u \<in> set (Users db). email u \<noteq> Val e) \<longrightarrow>
      login env db b now = (Response 400 (Failure ''Invalid Email''), db)) \<and>
   (b ''email'' = Some e \<and> findOne_email (Users db) (Val e) = Some u \<and>
    b ''password'' = Some pw \<and> \<not> bcrypt_compare env pw (password u) \<longrightarrow>
      login env db b now = (Response 400 (Failure ''Invalid Password''), db)) \<and>
   (b ''email'' = Some e \<and> findOne_email (Users db) (Val e) = Some u \<and>
    b ''password'' = Some pw \<and> bcrypt_compare env pw (password u) \<longrightarrow>
      login env db b now =
        (Response 200 (Success_token (jwt_sign (u_id u) ''secret_ecom'' ''1h'' now)), db))"
proof (intro conjI impI)
  assume a: "b ''email'' = Some e \<and> (\<forall>u \<in> set (Users db). email u \<noteq> Val e)"
  then have "findOne_email (Users db) (req_body b ''email'') = None"
    by (simp add: findOne_email_None req_body_def)
  then show "login env db b now = (Response 400 (Failure ''Invalid Email''), db)"
    by (rule login_unknown)
next
  assume a: "b ''email'' = Some e \<and> findOne_email (Users db) (Val e) = Some u \<and>
    b ''password'' = Some pw \<and> \<not> bcrypt_compare env pw (password u)"
  then have "findOne_email (Users db) (req_body b ''email'') = Some u"
    by (simp add: req_body_def)
  from login_known [OF this, of pw env now] a
  show "login env db b now = (Response 400 (Failure ''Invalid Password''), db)"
    by simp
next
  assume a: "b ''email'' = Some e \<and> findOne_email (Users db) (Val e) = Some u \<and>
    b ''password'' = Some pw \<and> bcrypt_compare env pw (password u)"
  then have "findOne_email (Users db) (req_body b ''email'') = Some u"
    by (simp add: req_body_def)
  from login_known [OF this, of pw env now] a
  show "login env db b now =
        (Response 200 (Success_token (jwt_sign (u_id u) ''secret_ecom'' ''1h'' now)), db)"
    by simp
qed

theorem login_outcomes_witness:
  "login (example_env True) registered_db other_account 9 =
     (Response 400 (Failure ''Invalid Email''), registered_db) \<and>
   login (example_env True) registered_db (example_account(''password'' \<mapsto> ''wp'')) 9 =
     (Response 400 (Failure ''Invalid Password''), registered_db) \<and>
   login (example_env True) registered_db example_account 9 =
     (Response 200 (Success_token \<lparr>payload_user_id = 0, secretOrPrivateKey = ''secret_ecom'',
                                    expiresIn = ''1h'', iat = 9\<rparr>), registered_db)"
proof -
  have unknown: "other_account ''email'' = Some ''bob@example.org'' \<and>
      (\<forall>u \<in> set (Users registered_db). email u \<noteq> Val ''bob@example.org'')"
    by (simp add: other_account_def registered_db_eq example_user_def)
  have wrong: "(example_account(''password'' \<mapsto> ''wp'')) ''email'' = Some ''ann@example.org'' \<and>
      findOne_email (Users registered_db) (Val ''ann@example.org'') = Some example_user \<and>
      (example_account(''password'' \<mapsto> ''wp'')) ''password'' = Some ''wp'' \<and>
      \<not> bcrypt_compare (example_env True) ''wp'' (password example_user)"
    by (simp add: example_account_def findOne_registered example_user_def example_env_def
                  example_compare_def)
  have right: "example_account ''email'' = Some ''ann@example.org'' \<and>
      findOne_email (Users registered_db) (Val ''ann@example.org'') = Some example_user \<and>
      example_account ''password'' = Some ''pw'' \<and>
      bcrypt_compare (example_env True) ''pw'' (password example_user)"
    by (simp add: example_account_def findOne_registered example_user_def example_env_def
                  example_compare_def)
  from login_outcomes [of other_account "''bob@example.org''" registered_db "example_env True" 9]
       unknown
  have 1: "login (example_env True) registered_db other_account 9 =
     (Response 400 (Failure ''Invalid Email''), registered_db)"
    by blast
  from login_outcomes [of "example_account(''password'' \<mapsto> ''wp'')" "''ann@example.org''"
                          registered_db "example_env True" 9 example_user "''wp''"]
       wrong
  have 2: "login (example_env True) registered_db (example_account(''password'' \<mapsto> ''wp'')) 9 =
     (Response 400 (Failure ''Invalid Password''), registered_db)"
    by blast
  from login_outcomes [of example_account "''ann@example.org''"
                          registered_db "example_env True" 9 example_user "''pw''"]
       right
  have 3: "login (example_env True) registered_db example_account 9 =
     (Response 200 (Success_token (jwt_sign (u_id example_user) ''secret_ecom'' ''1h'' 9)),
      registered_db)"
    by blast
  from 1 2 3 show ?thesis
    by (simp add: jwt_sign_def example_user_def)
qed

lemma signup_store_effect:
  "snd (signup env db b salt now) = db \<or>
    (\<exists>pw. b ''password'' = Some pw \<and>
       snd (signup env db b salt now) =
         db\<lparr>Users := Users db @
                [\<lparr>u_id = next_id db, u_name = req_body b ''username'',
                  email = req_body b ''email'', password = bcrypt_hash env pw 10 salt,
                  cartDate = cart_loop 0 []\<rparr>],
            next_id := next_id db + 1\<rparr>)"
proof (cases "findOne_email (Users db) (req_body b ''email'')")
  case (Some existingUser)
  then show ?thesis by (simp add: signup_def)
next
  case None
  show ?thesis
  proof (cases "b ''password''")
    case no_password: None
    with None show ?thesis by (simp add: signup_def req_body_def)
  next
    case (Some pw)
    with None show ?thesis
      by (auto simp: signup_def req_body_def Let_def)
  qed
qed

text \<open>
  Claim C9. Every user that registration stores has as its password what \<open>bcrypt.hash\<close>
  returned for the password of the request at cost 10, and as its cart an object with
  exactly the keys 0 to 299, each with the quantity 0.
\<close>

theorem signup_stores_hash_and_cart:
  "(snd (signup env db b salt now) = db \<or>
    (\<exists>pw. b ''password'' = Some pw \<and>
       snd (signup env db b salt now) =
         db\<lparr>Users := Users db @
                [\<lparr>u_id = next_id db, u_name = req_body b ''username'',
                  email = req_body b ''email'', password = bcrypt_hash env pw 10 salt,
                  cartDate = cart_loop 0 []\<rparr>],
            next_id := next_id db + 1\<rparr>)) \<and>
   map fst (cart_loop 0 []) = [0..<300] \<and>
   (\<forall>i. map_of (cart_loop 0 []) i = (if i < 300 then Some 0 else None))"
proof -
  have cart: "map fst (cart_loop 0 []) = [0..<300] \<and>
      (\<forall>i. map_of (cart_loop 0 []) i = (if i < 300 then Some 0 else None))"
    by (simp add: cart_loop_result map_of_zero_slots comp_def)
  with signup_store_effect [of env db b salt now] show ?thesis by blast
qed

theorem signup_stores_hash_and_cart_witness:
  "Users registered_db = [example_user] \<and>
   password example_user = example_hash ''pw'' 10 ''salt'' \<and>
   map fst (cartDate example_user) = [0..<300] \<and>
   map_of (cartDate example_user) 0 = Some 0 \<and>
   map_of (cartDate example_user) 299 = Some 0 \<and>
   map_of (cartDate example_user) 300 = None"
proof -
  from signup_stores_hash_and_cart [of "example_env True" empty_db example_account "''salt''" 5]
  have shape: "map fst (cart_loop 0 []) = [0..<300]"
    and slots: "\<forall>i. map_of (cart_loop 0 []) i = (if i < 300 then Some 0 else None)"
    by blast+
  from slots have "map_of (cart_loop 0 []) 0 = Some 0" "map_of (cart_loop 0 []) 299 = Some 0"
    "map_of (cart_loop 0 []) 300 = None"
    by simp_all
  with shape show ?thesis
    by (simp add: registered_db_eq example_user_def example_hash_def)
qed

subsection \<open>Users are only ever added\<close>

lemma signup_users_grow: "\<exists>vs. Users (snd (signup env db b salt now)) = Users db @ vs"
  using signup_store_effect [of env db b salt now] by auto

lemma post_api_data_users: "Users (snd (post_api_data db b uploads)) = Users db"
  by (simp add: post_api_data_def post_api_data_handler_def Let_def split: sum.splits)

lemma post_products_users: "Users (snd (post_products env db b uploads)) = Users db"
  by (simp add: post_products_def post_products_handler_def Let_def
           split: sum.splits option.splits)

lemma delete_products_users: "Users (snd (delete_products db param_id)) = Users db"
  by (simp add: delete_products_def split: option.splits)

lemma put_products_users: "Users (snd (put_products env db param_id b uploads)) = Users db"
  by (simp add: put_products_def put_products_handler_def
           split: sum.splits option.splits prod.splits)

lemma login_users: "snd (login env db b now) = db"
  by (simp add: login_def Let_def split: option.splits field.splits)

lemma serve_users_grow: "\<exists>vs. Users (snd (serve env db r)) = Users db @ vs"
proof (cases r)
  case (Signup b salt now)
  then show ?thesis using signup_users_grow [of env db b salt now] by simp
qed (simp_all add: post_api_data_users post_products_users delete_products_users
       put_products_users login_users get_api_data_def get_products_def)

lemma run_users_grow: "\<exists>vs. Users (run env db rs) = Users db @ vs"
proof (induction rs arbitrary: db)
  case Nil
  show ?case by simp
next
  case (Cons r rs)
  obtain vs where 1: "Users (snd (serve env db r)) = Users db @ vs"
    using serve_users_grow by blast
  obtain ws where 2: "Users (run env (snd (serve env db r)) rs) = Users (snd (serve env db r)) @ ws"
    using Cons.IH by blast
  from 1 2 show ?case by simp
qed

text \<open>
  Claim C5. The token that registration issues for a user and the token that any later
  login with that user's email issues, whatever requests the server took in between,
  carry the same user id, the lifetime "1h" and the one key that is written in both
  handlers.
\<close>

theorem tokens_of_one_user:
  assumes "b ''email'' = Some e"
    and "signup env db b salt now = (Response 200 (Success_token t1), db1)"
    and "b' ''email'' = Some e"
    and "login env (run env db1 rs) b' now' = (Response 200 (Success_token t2), db2)"
  shows "payload_user_id t2 = payload_user_id t1 \<and>
         expiresIn t1 = ''1h'' \<and> expiresIn t2 = ''1h'' \<and>
         secretOrPrivateKey t1 = ''secret_ecom'' \<and> secretOrPrivateKey t2 = ''secret_ecom'' \<and>
         (\<exists>u \<in> set (Users (run env db1 rs)). u_id u = payload_user_id t1 \<and> email u = Val e)"
proof -
  have none: "findOne_email (Users db) (Val e) = None"
  proof (cases "findOne_email (Users db) (Val e)")
    case (Some u)
    with assms(1) have "findOne_email (Users db) (req_body b ''email'') = Some u"
      by (simp add: req_body_def)
    from signup_existing [OF this, of env salt now] assms(2) show ?thesis by simp
  qed simp
  obtain pw where pw: "b ''password'' = Some pw"
  proof (cases "b ''password''")
    case None
    with none assms(1,2) show ?thesis by (simp add: signup_def req_body_def)
  qed blast
  define u0 where "u0 = \<lparr>u_id = next_id db, u_name = req_body b ''username'', email = Val e,
      password = bcrypt_hash env pw 10 salt, cartDate = cart_loop 0 []\<rparr>"
  from signup_fresh [OF assms(1) none pw, of env salt now] assms(2)
  have t1: "t1 = jwt_sign (next_id db) ''secret_ecom'' ''1h'' now"
    and db1: "Users db1 = Users db @ [u0]"
    by (auto simp: u0_def)
  have "findOne_email (Users db1) (Val e) = Some u0"
    unfolding db1 using none by (rule findOne_email_new) (simp add: u0_def)
  moreover obtain vs where "Users (run env db1 rs) = Users db1 @ vs"
    using run_users_grow by blast
  ultimately have found: "findOne_email (Users (run env db1 rs)) (Val e) = Some u0"
    by (simp add: findOne_email_append)
  then have found': "findOne_email (Users (run env db1 rs)) (req_body b' ''email'') = Some u0"
    using assms(3) by (simp add: req_body_def)
  obtain pw' where pw': "b' ''password'' = Some pw'"
  proof (cases "b' ''password''")
    case None
    with found' assms(4) show ?thesis by (simp add: login_def req_body_def)
  qed blast
  from login_known [OF found' pw', of env now'] assms(4)
  have t2: "t2 = jwt_sign (u_id u0) ''secret_ecom'' ''1h'' now'"
    by (simp split: if_splits)
  from findOne_email_Some [OF found] have "u0 \<in> set (Users (run env db1 rs))" by simp
  with t1 t2 show ?thesis
    by (auto simp: jwt_sign_def u0_def intro!: bexI [of _ u0])
qed

lemma run_example_requests:
  "Users (run (example_env True) registered_db example_requests) =
     [example_user,
      \<lparr>u_id = 1, u_name = Val ''bob'', email = Val ''bob@example.org'',
       password = ''sterces'', cartDate = cart_loop 0 []\<rparr>]"
  by (simp add: example_requests_def registered_db_eq signup_def login_def get_products_def
        findOne_email_def duplicate_key_def null_or_missing_def req_body_def other_account_def
        example_user_def
        example_env_def example_hash_def example_compare_def Let_def)

theorem tokens_of_one_user_witness:
  "signup (example_env True) empty_db example_account ''salt'' 5 =
     (Response 200 (Success_token \<lparr>payload_user_id = 0, secretOrPrivateKey = ''secret_ecom'',
                                    expiresIn = ''1h'', iat = 5\<rparr>), registered_db) \<and>
   login (example_env True) (run (example_env True) registered_db example_requests)
       example_account 9 =
     (Response 200 (Success_token \<lparr>payload_user_id = 0, secretOrPrivateKey = ''secret_ecom'',
                                    expiresIn = ''1h'', iat = 9\<rparr>),
      run (example_env True) registered_db example_requests) \<and>
   payload_user_id \<lparr>payload_user_id = 0, secretOrPrivateKey = ''secret_ecom'',
                    expiresIn = ''1h'', iat = 9\<rparr> =
   payload_user_id \<lparr>payload_user_id = 0, secretOrPrivateKey = ''secret_ecom'',
                    expiresIn = ''1h'', iat = 5\<rparr> \<and>
   (\<exists>u. u \<in> set (Users (run (example_env True) registered_db example_requests)) \<and>
        u_id u = 0 \<and> email u = Val ''ann@example.org'')"
proof -
  have e: "example_account ''email'' = Some ''ann@example.org''"
    and p: "example_account ''password'' = Some ''pw''"
    by (simp_all add: example_account_def)
  have none: "findOne_email (Users empty_db) (Val ''ann@example.org'') = None"
    by (simp add: empty_db_def findOne_email_def)
  have "fst (signup (example_env True) empty_db example_account ''salt'' 5) =
     Response 200 (Success_token \<lparr>payload_user_id = 0, secretOrPrivateKey = ''secret_ecom'',
                                   expiresIn = ''1h'', iat = 5\<rparr>)"
    by (subst signup_fresh [OF e none p]) (simp add: jwt_sign_def empty_db_def)
  then have first: "signup (example_env True) empty_db example_account ''salt'' 5 =
     (Response 200 (Success_token \<lparr>payload_user_id = 0, secretOrPrivateKey = ''secret_ecom'',
                                    expiresIn = ''1h'', iat = 5\<rparr>), registered_db)"
    by (simp add: registered_db_def prod_eq_iff)
  have "findOne_email (Users (run (example_env True) registered_db example_requests))
          (req_body example_account ''email'') = Some example_user"
    by (simp add: run_example_requests findOne_email_def req_body_def example_account_def
          example_user_def)
  from login_known [OF this p, of "example_env True" 9]
  have later: "login (example_env True) (run (example_env True) registered_db example_requests)
       example_account 9 =
     (Response 200 (Success_token \<lparr>payload_user_id = 0, secretOrPrivateKey = ''secret_ecom'',
                                    expiresIn = ''1h'', iat = 9\<rparr>),
      run (example_env True) registered_db example_requests)"
    by (simp add: jwt_sign_def example_user_def example_env_def example_compare_def)
  from tokens_of_one_user [OF e first e later] first later show ?thesis
    by (simp add: Bex_def)
qed

section \<open>Image intake\<close>

lemma filename_store: "filename (store f) = storage_filename f"
  by (simp add: store_def upload.extend_def stored_file.fields_def)

lemma multer_accepts:
  "length uploads \<le> left \<Longrightarrow> list_all (\<lambda>f. fieldname f = field \<and> fileFilter f) uploads \<Longrightarrow>
   multer field left uploads = Inr (map store uploads)"
proof (induction uploads arbitrary: left)
  case Nil
  show ?case by simp
next
  case (Cons f fs)
  then have "length fs \<le> left - 1" and "left \<noteq> 0" by auto
  with Cons show ?case by simp
qed

lemma multer_rejects:
  "\<exists>f \<in> set uploads. \<not> fileFilter f \<Longrightarrow> \<exists>e. multer field left uploads = Inl e"
proof (induction uploads arbitrary: left)
  case Nil
  then show ?case by simp
next
  case (Cons f fs)
  show ?case
  proof (cases "fieldname f \<noteq> field \<or> left = 0 \<or> \<not> fileFilter f")
    case True
    then show ?thesis by auto
  next
    case False
    with Cons.prems have "\<exists>g \<in> set fs. \<not> fileFilter g" by auto
    then obtain e where "multer field (left - 1) fs = Inl e"
      using Cons.IH by blast
    with False show ?thesis by simp
  qed
qed

lemma upload_array_accepts:
  "uploads_accepted field maxCount uploads \<Longrightarrow>
   upload_array field maxCount uploads = Inr (map store uploads)"
  by (simp add: uploads_accepted_def upload_array_def multer_accepts)

lemma file_url_store: "file_url (store f) = upload_path f"
  by (simp add: file_url_def upload_path_def filename_store)

lemma paths_of_stored: "map file_url (map store uploads) = map upload_path uploads"
  by (simp add: file_url_store)


lemma upload_paths_not_empty: "list_all (\<lambda>img. img \<noteq> []) (map upload_path uploads)"
  by (simp add: list_all_iff upload_path_def)

section \<open>The catalog\<close>

subsection \<open>Creation\<close>

lemma new_Product_valid:
  assumes "scalars_valid env b"
  shows "\<exists>np op av.
     castNumber env (req_body b ''new_price'') = Some np \<and>
     castNumber env (req_body b ''old_price'') = Some op \<and>
     castBoolean (req_available b) = Some av \<and>
     new_Product env i
       \<lparr>f_name = req_body b ''name'', f_description = req_body b ''description'',
        f_new_price = req_body b ''new_price'', f_old_price = req_body b ''old_price'',
        f_category = req_body b ''category'', f_available = req_available b,
        f_images = Some (map upload_path uploads), f_data = Some d\<rparr> =
     Some \<lparr>p_id = i, name = trim_setter (req_body b ''name''),
           description = req_body b ''description'', new_price = np,
           old_price = (if op = Undefined then Val 0 else op),
           images = map upload_path uploads, category = req_body b ''category'',
           data = render_data env d, available = Val av\<rparr>"
proof -
  from assms obtain np op av where
    c: "castNumber env (req_body b ''new_price'') = Some np"
       "castNumber env (req_body b ''old_price'') = Some op"
       "castBoolean (req_available b) = Some av"
    and r: "required_Number np"
    by (auto simp: scalars_valid_def split: option.splits)
  from assms have s: "required_String (trim_setter (req_body b ''name''))"
     "required_String (req_body b ''description'')" "required_String (req_body b ''category'')"
    by (simp_all add: scalars_valid_def)
  from c r s upload_paths_not_empty [of uploads] show ?thesis
    by (simp add: new_Product_def cast_scalars_def Let_def)
qed

lemma post_products_created:
  assumes "scalars_valid env b" and "uploads_accepted ''images'' 50 uploads"
  shows "\<exists>product.
     post_products env db b uploads =
       (Response 201 (Success_product product),
        db\<lparr>Product := Product db @ [product], next_id := next_id db + 1\<rparr>) \<and>
     images product = map upload_path uploads \<and>
     data product = render_data env (parsedData env b)"
proof -
  from new_Product_valid [OF assms(1), of "next_id db" uploads "parsedData env b"]
  obtain product where
    "new_Product env (next_id db)
       \<lparr>f_name = req_body b ''name'', f_description = req_body b ''description'',
        f_new_price = req_body b ''new_price'', f_old_price = req_body b ''old_price'',
        f_category = req_body b ''category'', f_available = req_available b,
        f_images = Some (map upload_path uploads), f_data = Some (parsedData env b)\<rparr> =
     Some product"
    and "images product = map upload_path uploads"
    and "data product = render_data env (parsedData env b)"
    by auto
  with upload_array_accepts [OF assms(2)] show ?thesis
    by (simp add: post_products_def post_products_handler_def paths_of_stored Let_def
          del: map_map)
qed

text \<open>
  Claim C8. Creating a product with no file attached succeeds and stores a product with
  no image. With \<open>n\<close> files that the intake accepts, \<open>n\<close> at most 50, the stored product
  has \<open>n\<close> images: the paths \<open>/uploads/<filename>\<close> of the files, in the order of the
  request.
\<close>

theorem create_product_images:
  "(scalars_valid env b \<longrightarrow>
      (\<exists>product.
         post_products env db b [] =
           (Response 201 (Success_product product),
            db\<lparr>Product := Product db @ [product], next_id := next_id db + 1\<rparr>) \<and>
         images product = [])) \<and>
   (scalars_valid env b \<and> length uploads \<le> 50 \<and>
    (\<forall>f \<in> set uploads. fieldname f = ''images'' \<and> fileFilter f) \<longrightarrow>
      (\<exists>product.
         post_products env db b uploads =
           (Response 201 (Success_product product),
            db\<lparr>Product := Product db @ [product], next_id := next_id db + 1\<rparr>) \<and>
         images product = map (\<lambda>f. ''/uploads/'' @ storage_filename f) uploads \<and>
         length (images product) = length uploads))"
proof (intro conjI impI)
  assume "scalars_valid env b"
  moreover have "uploads_accepted ''images'' 50 []"
    by (simp add: uploads_accepted_def)
  ultimately show "\<exists>product.
         post_products env db b [] =
           (Response 201 (Success_product product),
            db\<lparr>Product := Product db @ [product], next_id := next_id db + 1\<rparr>) \<and>
         images product = []"
    using post_products_created [of env b "[]" db] by auto
next
  assume a: "scalars_valid env b \<and> length uploads \<le> 50 \<and>
    (\<forall>f \<in> set uploads. fieldname f = ''images'' \<and> fileFilter f)"
  then have "uploads_accepted ''images'' 50 uploads"
    by (simp add: uploads_accepted_def list_all_iff)
  with a obtain product where
    "post_products env db b uploads =
       (Response 201 (Success_product product),
        db\<lparr>Product := Product db @ [product], next_id := next_id db + 1\<rparr>)"
    and "images product = map upload_path uploads"
    using post_products_created [of env b uploads db] by blast
  then show "\<exists>product.
         post_products env db b uploads =
           (Response 201 (Success_product product),
            db\<lparr>Product := Product db @ [product], next_id := next_id db + 1\<rparr>) \<and>
         images product = map (\<lambda>f. ''/uploads/'' @ storage_filename f) uploads \<and>
         length (images product) = length uploads"
    by (auto simp: upload_path_def)
qed

lemma example_body_valid: "scalars_valid (example_env omit) example_body"
  by code_simp

lemma example_files_accepted:
  "length example_files \<le> 50 \<and>
   (\<forall>f \<in> set example_files. fieldname f = ''images'' \<and> fileFilter f)"
  by code_simp

lemma example_files_paths:
  "map (\<lambda>f. ''/uploads/'' @ storage_filename f) example_files =
     [''/uploads/17.PNG'', ''/uploads/18.jpg'', ''/uploads/19.gif'']"
  by code_simp

theorem create_product_images_witness:
  "(\<exists>product.
      post_products (example_env True) empty_db example_body [] =
        (Response 201 (Success_product product),
         empty_db\<lparr>Product := Product empty_db @ [product], next_id := next_id empty_db + 1\<rparr>) \<and>
      images product = []) \<and>
   (\<exists>product.
      post_products (example_env True) empty_db example_body example_files =
        (Response 201 (Success_product product),
         empty_db\<lparr>Product := Product empty_db @ [product], next_id := next_id empty_db + 1\<rparr>) \<and>
      images product = [''/uploads/17.PNG'', ''/uploads/18.jpg'', ''/uploads/19.gif''] \<and>
      length (images product) = 3)"
proof -
  note inst = create_product_images [of "example_env True" example_body empty_db example_files]
  from inst example_body_valid [of True] have none: "\<exists>product.
      post_products (example_env True) empty_db example_body [] =
        (Response 201 (Success_product product),
         empty_db\<lparr>Product := Product empty_db @ [product], next_id := next_id empty_db + 1\<rparr>) \<and>
      images product = []"
    by blast
  from inst example_body_valid [of True] example_files_accepted obtain product where
    "post_products (example_env True) empty_db example_body example_files =
        (Response 201 (Success_product product),
         empty_db\<lparr>Product := Product empty_db @ [product], next_id := next_id empty_db + 1\<rparr>)"
    and "images product = map (\<lambda>f. ''/uploads/'' @ storage_filename f) example_files"
    by blast
  then have "post_products (example_env True) empty_db example_body example_files =
        (Response 201 (Success_product product),
         empty_db\<lparr>Product := Product empty_db @ [product], next_id := next_id empty_db + 1\<rparr>) \<and>
      images product = [''/uploads/17.PNG'', ''/uploads/18.jpg'', ''/uploads/19.gif''] \<and>
      length (images product) = 3"
    by (simp only: example_files_paths) simp
  with none show ?thesis by blast
qed

subsection \<open>The attributes of a product\<close>

lemma parsedData_valid:
  "b ''data'' = Some s \<Longrightarrow> s \<noteq> [] \<Longrightarrow> JSON_parse env s = Some v \<Longrightarrow> parsedData env b = v"
  by (simp add: parsedData_def body_data_def try_parse_def)

lemma parsedData_invalid:
  "b ''data'' = Some s \<Longrightarrow> JSON_parse env s = None \<Longrightarrow> parsedData env b = JObject []"
  by (simp add: parsedData_def body_data_def try_parse_def)

text \<open>
  Claim C6, as the schema has it. A product created with an attributes text that is
  valid JSON is listed afterwards with what \<open>minimize\<close> leaves of the parsed value as its
  attributes: exactly the parsed value whenever \<open>minimize\<close> leaves it as it is. A product
  created with an attributes text that \<open>JSON.parse\<close> refuses is created all the same, the
  failure of the parse is not an error of the request, and its attributes are what
  \<open>minimize\<close> leaves of the empty object: none, where \<open>minimize\<close> removes it.
\<close>

theorem attributes_after_minimize:
  "(scalars_valid env b \<and> uploads_accepted ''images'' 50 uploads \<and>
    b ''data'' = Some s \<and> s \<noteq> [] \<and> JSON_parse env s = Some v \<longrightarrow>
      (\<exists>product db'.
         post_products env db b uploads = (Response 201 (Success_product product), db') \<and>
         data product = render_data env v \<and>
         (minimize env v = Some v \<longrightarrow> data product = Val v) \<and>
         get_products db' = (Response 200 (Success_products (Product db @ [product])), db'))) \<and>
   (scalars_valid env b \<and> uploads_accepted ''images'' 50 uploads \<and>
    b ''data'' = Some s \<and> JSON_parse env s = None \<longrightarrow>
      (\<exists>product db'.
         post_products env db b uploads = (Response 201 (Success_product product), db') \<and>
         data product = render_data env (JObject []) \<and>
         (minimize env (JObject []) = None \<longrightarrow> data product = Undefined) \<and>
         get_products db' = (Response 200 (Success_products (Product db @ [product])), db')))"
proof (intro conjI impI)
  assume a: "scalars_valid env b \<and> uploads_accepted ''images'' 50 uploads \<and>
    b ''data'' = Some s \<and> s \<noteq> [] \<and> JSON_parse env s = Some v"
  then obtain product where
    "post_products env db b uploads =
       (Response 201 (Success_product product),
        db\<lparr>Product := Product db @ [product], next_id := next_id db + 1\<rparr>)"
    and "data product = render_data env (parsedData env b)"
    using post_products_created [of env b uploads db] by blast
  with a parsedData_valid [of b s env v]
  show "\<exists>product db'.
         post_products env db b uploads = (Response 201 (Success_product product), db') \<and>
         data product = render_data env v \<and>
         (minimize env v = Some v \<longrightarrow> data product = Val v) \<and>
         get_products db' = (Response 200 (Success_products (Product db @ [product])), db')"
    by (simp add: get_products_def render_data_def)
next
  assume a: "scalars_valid env b \<and> uploads_accepted ''images'' 50 uploads \<and>
    b ''data'' = Some s \<and> JSON_parse env s = None"
  then obtain product where
    "post_products env db b uploads =
       (Response 201 (Success_product product),
        db\<lparr>Product := Product db @ [product], next_id := next_id db + 1\<rparr>)"
    and "data product = render_data env (parsedData env b)"
    using post_products_created [of env b uploads db] by blast
  with a parsedData_invalid [of b s env]
  show "\<exists>product db'.
         post_products env db b uploads = (Response 201 (Success_product product), db') \<and>
         data product = render_data env (JObject []) \<and>
         (minimize env (JObject []) = None \<longrightarrow> data product = Undefined) \<and>
         get_products db' = (Response 200 (Success_products (Product db @ [product])), db')"
    by (simp add: get_products_def render_data_def)
qed

lemma broken_body_valid: "scalars_valid (example_env omit) broken_body"
  by code_simp

lemma example_body_data:
  \<open>example_body ''data'' = Some ''{"color":"red","size":42}'' \<and>
   JSON_parse (example_env True) ''{"color":"red","size":42}'' =
     Some (JObject [(''color'', JString ''red''), (''size'', JNumber 42)]) \<and>
   minimize (example_env True) (JObject [(''color'', JString ''red''), (''size'', JNumber 42)]) =
     Some (JObject [(''color'', JString ''red''), (''size'', JNumber 42)])\<close>
  by code_simp

lemma broken_body_data:
  "broken_body ''data'' = Some ''{color:'' \<and> JSON_parse (example_env True) ''{color:'' = None \<and>
   minimize (example_env True) (JObject []) = None"
  by code_simp

theorem attributes_after_minimize_witness:
  "(\<exists>product db'.
      post_products (example_env True) empty_db example_body [] =
        (Response 201 (Success_product product), db') \<and>
      data product = Val (JObject [(''color'', JString ''red''), (''size'', JNumber 42)]) \<and>
      get_products db' = (Response 200 (Success_products (Product empty_db @ [product])), db')) \<and>
   (\<exists>product db'.
      post_products (example_env True) empty_db broken_body [] =
        (Response 201 (Success_product product), db') \<and>
      data product = Undefined \<and>
      get_products db' = (Response 200 (Success_products (Product empty_db @ [product])), db'))"
proof -
  have acc: "uploads_accepted ''images'' 50 []"
    by (simp add: uploads_accepted_def)
  from attributes_after_minimize [of "example_env True" example_body "[]" _ _ empty_db]
       example_body_valid [of True] acc example_body_data
  have 1: "\<exists>product db'.
      post_products (example_env True) empty_db example_body [] =
        (Response 201 (Success_product product), db') \<and>
      data product = Val (JObject [(''color'', JString ''red''), (''size'', JNumber 42)]) \<and>
      get_products db' = (Response 200 (Success_products (Product empty_db @ [product])), db')"
    by blast
  from attributes_after_minimize [of "example_env True" broken_body "[]" _ _ empty_db]
       broken_body_valid [of True] acc broken_body_data
  have 2: "\<exists>product db'.
      post_products (example_env True) empty_db broken_body [] =
        (Response 201 (Success_product product), db') \<and>
      data product = Undefined \<and>
      get_products db' = (Response 200 (Success_products (Product empty_db @ [product])), db')"
    by blast
  from 1 2 show ?thesis by blast
qed

text \<open>
  The claim as the specification has it fails: the text \<open>{"a":{}}\<close> is valid JSON, and the
  product created with it is stored and listed with no attributes at all, since
  \<open>minimize\<close> removes the empty object and then the object it was the only member of.
\<close>

theorem nested_empty_object_counterexample:
  \<open>nested_body ''data'' = Some ''{"a":{}}'' \<and>
   JSON_parse (example_env True) ''{"a":{}}'' = Some (JObject [(''a'', JObject [])]) \<and>
   post_products (example_env True) empty_db nested_body [] =
     (Response 201 (Success_product nested_product),
      \<lparr>DataModel = [], Product = [nested_product], Users = [], next_id = 1\<rparr>) \<and>
   get_products \<lparr>DataModel = [], Product = [nested_product], Users = [], next_id = 1\<rparr> =
     (Response 200 (Success_products [nested_product]),
      \<lparr>DataModel = [], Product = [nested_product], Users = [], next_id = 1\<rparr>) \<and>
   data nested_product = Undefined \<and>
   data nested_product \<noteq> Val (JObject [(''a'', JObject [])])\<close>
  by code_simp

subsection \<open>Update\<close>

lemma findById_p_id: "findById ps i = Some p \<Longrightarrow> p_id p = i"
  by (auto simp: findById_def find_Some_iff)

lemma findById_replace_first:
  "findById ps i = Some p \<Longrightarrow> p_id q = i \<Longrightarrow> findById (replace_first i q ps) i = Some q"
  by (induction ps) (auto simp: findById_def split: if_splits)

lemma p_id_apply_update: "p_id (apply_update env u c p) = p_id p"
  by (cases c) (simp add: apply_update_def)

lemma castNumber_defined: "castNumber env (Val s) = Some x \<Longrightarrow> x \<noteq> Undefined"
  by (auto simp: castNumber_def split: if_splits option.splits)

lemma castNumber_Undefined: "castNumber env Undefined = Some Undefined"
  by (simp add: castNumber_def)

lemma cast_scalars_updatedData:
  "cast_scalars env (updatedData env b fs) =
     (case castNumber env (req_body b ''new_price'') of
        None \<Rightarrow> None
      | Some np \<Rightarrow>
          (case castNumber env (req_body b ''old_price'') of
             None \<Rightarrow> None
           | Some op \<Rightarrow>
               (case castBoolean (req_available b) of
                  None \<Rightarrow> None
                | Some av \<Rightarrow> Some (np, op, av))))"
  by (simp add: cast_scalars_def updatedData_def split: option.splits)

lemma put_products_updated:
  assumes "findById (Product db) i = Some p" and "scalars_cast env b"
    and "uploads_accepted ''images'' 50 uploads"
  shows "\<exists>np op av.
     castNumber env (req_body b ''new_price'') = Some np \<and>
     castNumber env (req_body b ''old_price'') = Some op \<and>
     castBoolean (req_available b) = Some av \<and>
     put_products env db (Some i) b uploads =
       (Response 200
          (Success_product
             (apply_update env (updatedData env b (map store uploads)) (np, op, av) p)),
        db\<lparr>Product :=
             replace_first i
               (apply_update env (updatedData env b (map store uploads)) (np, op, av) p)
               (Product db)\<rparr>)"
proof -
  from assms(2) obtain np op av where
    c: "castNumber env (req_body b ''new_price'') = Some np"
       "castNumber env (req_body b ''old_price'') = Some op"
       "castBoolean (req_available b) = Some av"
    by (auto simp: scalars_cast_def)
  then have "cast_scalars env (updatedData env b (map store uploads)) = Some (np, op, av)"
    by (simp add: cast_scalars_updatedData)
  with assms(1) upload_array_accepts [OF assms(3)] c show ?thesis
    by (simp add: put_products_def put_products_handler_def findByIdAndUpdate_def Let_def)
qed

lemma images_apply_update:
  "images (apply_update env (updatedData env b (map store uploads)) c p) =
     (if uploads = [] then images p else map upload_path uploads)"
  by (cases c) (simp add: apply_update_def updatedData_def write_path_def file_url_store)

text \<open>
  Claim C7. An update of a stored product with no file attached leaves the images of the
  product as they were; an update with at least one file replaces them by the paths of
  the new files, all of them and nothing else.
\<close>

theorem update_product_images:
  "(findById (Product db) i = Some p \<and> scalars_cast env b \<longrightarrow>
      (\<exists>product.
         put_products env db (Some i) b [] =
           (Response 200 (Success_product product),
            db\<lparr>Product := replace_first i product (Product db)\<rparr>) \<and>
         findById (replace_first i product (Product db)) i = Some product \<and>
         images product = images p)) \<and>
   (findById (Product db) i = Some p \<and> scalars_cast env b \<and> uploads \<noteq> [] \<and>
    uploads_accepted ''images'' 50 uploads \<longrightarrow>
      (\<exists>product.
         put_products env db (Some i) b uploads =
           (Response 200 (Success_product product),
            db\<lparr>Product := replace_first i product (Product db)\<rparr>) \<and>
         findById (replace_first i product (Product db)) i = Some product \<and>
         images product = map upload_path uploads))"
proof (intro conjI impI)
  assume a: "findById (Product db) i = Some p \<and> scalars_cast env b"
  have acc: "uploads_accepted ''images'' 50 []"
    by (simp add: uploads_accepted_def)
  from a put_products_updated [of db i p env b "[]", OF _ _ acc] obtain c where
    eq: "put_products env db (Some i) b [] =
       (Response 200 (Success_product (apply_update env (updatedData env b (map store [])) c p)),
        db\<lparr>Product := replace_first i
               (apply_update env (updatedData env b (map store [])) c p) (Product db)\<rparr>)"
    by blast
  let ?q = "apply_update env (updatedData env b (map store [])) c p"
  from a have "p_id p = i"
    using findById_p_id [of "Product db" i p] by blast
  then have "p_id ?q = i"
    by (simp add: p_id_apply_update)
  with a have "findById (replace_first i ?q (Product db)) i = Some ?q"
    by (simp add: findById_replace_first)
  moreover have "images ?q = images p"
    by (simp only: images_apply_update) simp
  ultimately show "\<exists>product.
         put_products env db (Some i) b [] =
           (Response 200 (Success_product product),
            db\<lparr>Product := replace_first i product (Product db)\<rparr>) \<and>
         findById (replace_first i product (Product db)) i = Some product \<and>
         images product = images p"
    using eq by blast
next
  assume a: "findById (Product db) i = Some p \<and> scalars_cast env b \<and> uploads \<noteq> [] \<and>
    uploads_accepted ''images'' 50 uploads"
  from a put_products_updated [of db i p env b uploads] obtain c where
    eq: "put_products env db (Some i) b uploads =
       (Response 200
          (Success_product (apply_update env (updatedData env b (map store uploads)) c p)),
        db\<lparr>Product := replace_first i
               (apply_update env (updatedData env b (map store uploads)) c p) (Product db)\<rparr>)"
    by blast
  let ?q = "apply_update env (updatedData env b (map store uploads)) c p"
  from a have "p_id p = i"
    using findById_p_id [of "Product db" i p] by blast
  then have "p_id ?q = i"
    by (simp add: p_id_apply_update)
  with a have "findById (replace_first i ?q (Product db)) i = Some ?q"
    by (simp add: findById_replace_first)
  moreover from a have "images ?q = map upload_path uploads"
    by (simp only: images_apply_update) simp
  ultimately show "\<exists>product.
         put_products env db (Some i) b uploads =
           (Response 200 (Success_product product),
            db\<lparr>Product := replace_first i product (Product db)\<rparr>) \<and>
         findById (replace_first i product (Product db)) i = Some product \<and>
         images product = map upload_path uploads"
    using eq by blast
qed

lemma example_db_product: "findById (Product example_db) 0 = Some example_product"
  by code_simp

lemma rename_body_cast: "scalars_cast (example_env omit) rename_body"
  by code_simp

lemma example_files_upload_accepted:
  "example_files \<noteq> [] \<and> uploads_accepted ''images'' 50 example_files"
  by code_simp

lemma example_files_upload_paths:
  "map upload_path example_files =
     [''/uploads/17.PNG'', ''/uploads/18.jpg'', ''/uploads/19.gif'']"
  by code_simp

lemma example_product_images: "images example_product = [''/uploads/17.png'']"
  by (simp add: example_product_def)

theorem update_product_images_witness:
  "(\<exists>product.
      put_products (example_env True) example_db (Some 0) rename_body [] =
        (Response 200 (Success_product product),
         example_db\<lparr>Product := replace_first 0 product (Product example_db)\<rparr>) \<and>
      findById (replace_first 0 product (Product example_db)) 0 = Some product \<and>
      images product = [''/uploads/17.png'']) \<and>
   (\<exists>product.
      put_products (example_env True) example_db (Some 0) rename_body example_files =
        (Response 200 (Success_product product),
         example_db\<lparr>Product := replace_first 0 product (Product example_db)\<rparr>) \<and>
      findById (replace_first 0 product (Product example_db)) 0 = Some product \<and>
      images product = [''/uploads/17.PNG'', ''/uploads/18.jpg'', ''/uploads/19.gif''])"
proof -
  note inst = update_product_images
                [of example_db 0 example_product "example_env True" rename_body example_files]
  from inst example_db_product rename_body_cast [of True]
  have 1: "\<exists>product.
      put_products (example_env True) example_db (Some 0) rename_body [] =
        (Response 200 (Success_product product),
         example_db\<lparr>Product := replace_first 0 product (Product example_db)\<rparr>) \<and>
      findById (replace_first 0 product (Product example_db)) 0 = Some product \<and>
      images product = images example_product"
    by blast
  from inst example_db_product rename_body_cast [of True] example_files_upload_accepted
  have 2: "\<exists>product.
      put_products (example_env True) example_db (Some 0) rename_body example_files =
        (Response 200 (Success_product product),
         example_db\<lparr>Product := replace_first 0 product (Product example_db)\<rparr>) \<and>
      findById (replace_first 0 product (Product example_db)) 0 = Some product \<and>
      images product = map upload_path example_files"
    by blast
  from 1 2 show ?thesis
    by (simp only: example_product_images example_files_upload_paths)
qed

lemma name_apply_update:
  "name (apply_update env (updatedData env b fs) c p) =
     (case b ''name'' of
        Some s \<Rightarrow> Val (trim s)
      | None \<Rightarrow> if omitUndefined env then name p else Null)"
  by (cases c; cases "b ''name''")
     (simp_all add: apply_update_def updatedData_def write_path_def set_path_def req_body_def
        trim_setter_def)

lemma description_apply_update:
  "description (apply_update env (updatedData env b fs) c p) =
     (case b ''description'' of
        Some s \<Rightarrow> Val s
      | None \<Rightarrow> if omitUndefined env then description p else Null)"
  by (cases c; cases "b ''description''")
     (simp_all add: apply_update_def updatedData_def write_path_def set_path_def req_body_def)

lemma category_apply_update:
  "category (apply_update env (updatedData env b fs) c p) =
     (case b ''category'' of
        Some s \<Rightarrow> Val s
      | None \<Rightarrow> if omitUndefined env then category p else Null)"
  by (cases c; cases "b ''category''")
     (simp_all add: apply_update_def updatedData_def write_path_def set_path_def req_body_def)

lemma written_number:
  "castNumber env (req_body b k) = Some x \<Longrightarrow>
   (case b k of
      Some s \<Rightarrow> castNumber env (Val s) = Some (write_path (set_path env x) old)
    | None \<Rightarrow> write_path (set_path env x) old = (if omitUndefined env then old else Null))"
proof (cases "b k")
  case None
  moreover assume "castNumber env (req_body b k) = Some x"
  ultimately have "x = Undefined"
    by (simp add: req_body_def castNumber_Undefined)
  with None show ?thesis
    by (simp add: write_path_def set_path_def)
next
  case (Some s)
  moreover assume "castNumber env (req_body b k) = Some x"
  ultimately have c: "castNumber env (Val s) = Some x"
    by (simp add: req_body_def)
  then have "x \<noteq> Undefined" by (rule castNumber_defined)
  with Some c show ?thesis
    by (simp add: write_path_def set_path_def)
qed

lemma new_price_apply_update:
  "new_price (apply_update env u (np, op, av) p) = write_path (set_path env np) (new_price p)"
  by (simp add: apply_update_def)

lemma old_price_apply_update:
  "old_price (apply_update env u (np, op, av) p) = write_path (set_path env op) (old_price p)"
  by (simp add: apply_update_def)

lemma available_apply_update:
  "available (apply_update env u (np, op, av) p) = Val av"
  by (simp add: apply_update_def)

lemma written_boolean:
  "castBoolean (req_available b) = Some av \<Longrightarrow>
   (case b ''available'' of
      Some s \<Rightarrow> castBoolean (JS_string s) = Some av
    | None \<Rightarrow> av = True)"
  by (cases "b ''available''") (simp_all add: req_available_def req_body_def castBoolean_def)

text \<open>
  Claim C1, as the handler has it. An update of a stored product writes the scalar fields
  from the request. A field that the request carries is written with its cast value.
  \<open>available\<close>, when the request omits it, is written as \<open>true\<close>. Each of \<open>name\<close>,
  \<open>description\<close>, \<open>new_price\<close>, \<open>old_price\<close> and \<open>category\<close>, when the request omits it, is a
  member \<open>undefined\<close> of the update: the stored value becomes \<open>null\<close> where Mongoose
  writes such members, and stays where Mongoose drops them.
\<close>

theorem update_scalar_fields:
  assumes "findById (Product db) i = Some p" and "scalars_cast env b"
    and "uploads_accepted ''images'' 50 uploads"
  shows "\<exists>product.
     put_products env db (Some i) b uploads =
       (Response 200 (Success_product product),
        db\<lparr>Product := replace_first i product (Product db)\<rparr>) \<and>
     name product =
       (case b ''name'' of
          Some s \<Rightarrow> Val (trim s)
        | None \<Rightarrow> if omitUndefined env then name p else Null) \<and>
     description product =
       (case b ''description'' of
          Some s \<Rightarrow> Val s
        | None \<Rightarrow> if omitUndefined env then description p else Null) \<and>
     category product =
       (case b ''category'' of
          Some s \<Rightarrow> Val s
        | None \<Rightarrow> if omitUndefined env then category p else Null) \<and>
     (case b ''new_price'' of
        Some s \<Rightarrow> castNumber env (Val s) = Some (new_price product)
      | None \<Rightarrow> new_price product = (if omitUndefined env then new_price p else Null)) \<and>
     (case b ''old_price'' of
        Some s \<Rightarrow> castNumber env (Val s) = Some (old_price product)
      | None \<Rightarrow> old_price product = (if omitUndefined env then old_price p else Null)) \<and>
     (case b ''available'' of
        Some s \<Rightarrow> (\<exists>av. castBoolean (JS_string s) = Some av \<and> available product = Val av)
      | None \<Rightarrow> available product = Val True)"
proof -
  from put_products_updated [OF assms] obtain np op av where
    np: "castNumber env (req_body b ''new_price'') = Some np"
    and op: "castNumber env (req_body b ''old_price'') = Some op"
    and av: "castBoolean (req_available b) = Some av"
    and eq: "put_products env db (Some i) b uploads =
       (Response 200
          (Success_product
             (apply_update env (updatedData env b (map store uploads)) (np, op, av) p)),
        db\<lparr>Product :=
             replace_first i
               (apply_update env (updatedData env b (map store uploads)) (np, op, av) p)
               (Product db)\<rparr>)"
    by blast
  let ?q = "apply_update env (updatedData env b (map store uploads)) (np, op, av) p"
  have "(case b ''new_price'' of
        Some s \<Rightarrow> castNumber env (Val s) = Some (new_price ?q)
      | None \<Rightarrow> new_price ?q = (if omitUndefined env then new_price p else Null))"
    using written_number [OF np, of "new_price p"] by (simp only: new_price_apply_update)
  moreover have "(case b ''old_price'' of
        Some s \<Rightarrow> castNumber env (Val s) = Some (old_price ?q)
      | None \<Rightarrow> old_price ?q = (if omitUndefined env then old_price p else Null))"
    using written_number [OF op, of "old_price p"] by (simp only: old_price_apply_update)
  moreover have "(case b ''available'' of
        Some s \<Rightarrow> (\<exists>av. castBoolean (JS_string s) = Some av \<and> available ?q = Val av)
      | None \<Rightarrow> available ?q = Val True)"
    using written_boolean [OF av]
    by (cases "b ''available''") (simp_all add: available_apply_update)
  ultimately show ?thesis
    using eq name_apply_update [of env b "map store uploads" "(np, op, av)" p]
      description_apply_update [of env b "map store uploads" "(np, op, av)" p]
      category_apply_update [of env b "map store uploads" "(np, op, av)" p]
    by blast
qed

lemma Cup_trimmed: "trim '' Cup '' = ''Cup''"
  by code_simp

theorem update_scalar_fields_witness:
  "(\<exists>product.
      put_products (example_env True) example_db (Some 0) rename_body [] =
        (Response 200 (Success_product product),
         example_db\<lparr>Product := replace_first 0 product (Product example_db)\<rparr>) \<and>
      name product = Val ''Cup'' \<and> description product = Val ''A red mug'' \<and>
      category product = Val ''kitchen'' \<and> new_price product = Val 10 \<and>
      old_price product = Val 25 \<and> available product = Val True) \<and>
   (\<exists>product.
      put_products (example_env False) example_db (Some 0) rename_body [] =
        (Response 200 (Success_product product),
         example_db\<lparr>Product := replace_first 0 product (Product example_db)\<rparr>) \<and>
      name product = Val ''Cup'' \<and> description product = Null \<and>
      category product = Null \<and> new_price product = Null \<and>
      old_price product = Null \<and> available product = Val True)"
proof -
  have acc: "uploads_accepted ''images'' 50 []"
    by (simp add: uploads_accepted_def)
  have body: "rename_body ''name'' = Some '' Cup ''" "rename_body ''description'' = None"
    "rename_body ''category'' = None" "rename_body ''new_price'' = None"
    "rename_body ''old_price'' = None" "rename_body ''available'' = None"
    by (simp_all add: rename_body_def)
  have before: "name example_product = Val ''Mug''" "description example_product = Val ''A red mug''"
    "category example_product = Val ''kitchen''" "new_price example_product = Val 10"
    "old_price example_product = Val 25"
    by (simp_all add: example_product_def)
  have flags: "omitUndefined (example_env True)" "\<not> omitUndefined (example_env False)"
    by (simp_all add: example_env_def)
  from update_scalar_fields [OF example_db_product rename_body_cast [of True] acc]
  have 1: "\<exists>product.
      put_products (example_env True) example_db (Some 0) rename_body [] =
        (Response 200 (Success_product product),
         example_db\<lparr>Product := replace_first 0 product (Product example_db)\<rparr>) \<and>
      name product = Val ''Cup'' \<and> description product = Val ''A red mug'' \<and>
      category product = Val ''kitchen'' \<and> new_price product = Val 10 \<and>
      old_price product = Val 25 \<and> available product = Val True"
    by (simp add: body before flags Cup_trimmed)
  from update_scalar_fields [OF example_db_product rename_body_cast [of False] acc]
  have 2: "\<exists>product.
      put_products (example_env False) example_db (Some 0) rename_body [] =
        (Response 200 (Success_product product),
         example_db\<lparr>Product := replace_first 0 product (Product example_db)\<rparr>) \<and>
      name product = Val ''Cup'' \<and> description product = Null \<and>
      category product = Null \<and> new_price product = Null \<and>
      old_price product = Null \<and> available product = Val True"
    by (simp add: body before flags Cup_trimmed)
  from 1 2 show ?thesis by blast
qed

text \<open>
  The claim as the specification has it fails for \<open>available\<close>: the example product is not
  available, the request omits \<open>available\<close>, and the stored product is available
  afterwards, whichever way Mongoose treats \<open>undefined\<close>. Where Mongoose drops
  \<open>undefined\<close> members, the description that the request omits is kept as well.
\<close>

theorem update_omitted_available_counterexample:
  "rename_body ''available'' = None \<and> rename_body ''description'' = None \<and>
   available example_product = Val False \<and>
   fst (put_products (example_env False) example_db (Some 0) rename_body []) =
     Response 200 (Success_product (renamed_product False)) \<and>
   fst (put_products (example_env True) example_db (Some 0) rename_body []) =
     Response 200 (Success_product (renamed_product True)) \<and>
   available (renamed_product False) = Val True \<and>
   available (renamed_product True) = Val True \<and>
   \<not> cleared (available (renamed_product False)) \<and>
   \<not> cleared (available (renamed_product True)) \<and>
   \<not> cleared (description (renamed_product True))"
  by code_simp

section \<open>The file filter\<close>

lemma listed_extension_passes:
  "e \<in> set (map (\<lambda>t. ''.'' @ t) allow_list) \<Longrightarrow> allowedTypes_test e"
  by (auto simp: allow_list_def allowedTypes_test_def)

lemma listed_content_type_passes:
  "m \<in> set (map (\<lambda>t. ''image/'' @ t) allow_list) \<Longrightarrow> allowedTypes_test m"
  by (auto simp: allow_list_def allowedTypes_test_def)

text \<open>
  Two parts of the validation hold of the filter. A file whose extension and content type
  are on the allow-list passes it. A request with a file that fails it ends with an error
  before the handler runs, and the database is as it was.
\<close>

lemma listed_file_passes: "spec_file_allowed g \<Longrightarrow> fileFilter g"
  by (simp add: spec_file_allowed_def fileFilter_def Let_def listed_extension_passes
        listed_content_type_passes)

lemma refused_file_ends_request:
  assumes "\<exists>f \<in> set uploads. \<not> fileFilter f"
  shows "(\<exists>e. post_products env db b uploads = (Next_error e, db)) \<and>
         (\<exists>e. put_products env db param_id b uploads = (Next_error e, db))"
proof -
  from assms obtain e where "upload_array ''images'' 50 uploads = Inl e"
    using multer_rejects [of uploads "''images''" 50] by (auto simp: upload_array_def)
  then show ?thesis
    by (simp add: post_products_def put_products_def)
qed

text \<open>
  Claim C2. Every file of a creation or an update is validated against the allow-list
  jpeg, jpg, png, gif, and a file is refused if and only if its extension or its content
  type is outside the list. The filter does not do that: its pattern has no anchors, so
  \<open>test\<close> searches the words anywhere in the extension and in the content type. The file
  \<open>payload.gifsh\<close> of type \<open>application/x-gifsh\<close> is outside the allow-list; the filter
  lets it through, it is stored as \<open>17.gifsh\<close>, and the request creates a product with that
  image.
\<close>

theorem unlisted_type_accepted:
  "extname (originalname unlisted_upload) = ''.gifsh'' \<and>
   mimetype unlisted_upload = ''application/x-gifsh'' \<and>
   \<not> spec_file_allowed unlisted_upload \<and>
   fileFilter unlisted_upload \<and>
   post_products (example_env True) empty_db example_body [unlisted_upload] =
     (Response 201
        (Success_product
           \<lparr>p_id = 0, name = Val ''Mug'', description = Val ''A red mug'', new_price = Val 10,
            old_price = Val 25, images = [''/uploads/17.gifsh''], category = Val ''kitchen'',
            data = Val (JObject [(''color'', JString ''red''), (''size'', JNumber 42)]),
            available = Val False\<rparr>),
      \<lparr>DataModel = [],
       Product =
         [\<lparr>p_id = 0, name = Val ''Mug'', description = Val ''A red mug'', new_price = Val 10,
           old_price = Val 25, images = [''/uploads/17.gifsh''], category = Val ''kitchen'',
           data = Val (JObject [(''color'', JString ''red''), (''size'', JNumber 42)]),
           available = Val False\<rparr>],
       Users = [], next_id = 1\<rparr>)"
  by code_simp

end
